theory Spec2Isabelle
  imports Main
begin

section \<open>Python values and exceptions\<close>

text \<open>
  The development embeds the persistence gateway (\<^verbatim>\<open>db.py\<close>, class \<^verbatim>\<open>NeonDB\<close>), the
  refresh worker (\<^verbatim>\<open>tab/manageTab.py\<close>) and the manual backup
  (\<^verbatim>\<open>tab/registerTab.py\<close>). A Python \<^verbatim>\<open>str\<close> is a \<^typ>\<open>string\<close>; a character
  outside ASCII is spelled by its UTF-8 bytes. Every \<^verbatim>\<open>raise\<close> is a value \<open>Inl e\<close> of a sum type, every
  \<^verbatim>\<open>except Exception\<close> a case distinction on it.
\<close>

datatype exc_class =
    ValueError | TypeError | AttributeError | PoolError | DatabaseError | OSError
  | RequestException | DecodeError | TclError

text \<open>An exception: its class and its message \<^verbatim>\<open>str(e)\<close>.\<close>

datatype error = Exc exc_class string

fun str_exc :: "error \<Rightarrow> string" where
  "str_exc (Exc c m) = m"

text \<open>Python's \<^verbatim>\<open>str(n)\<close> for an \<^verbatim>\<open>int\<close>: the decimal numeral.\<close>

definition digit_char :: "nat \<Rightarrow> char" where
  "digit_char d = char_of (48 + d)"

function str_nat :: "nat \<Rightarrow> string" where
  "str_nat n = (if n < 10 then [digit_char n] else str_nat (n div 10) @ [digit_char (n mod 10)])"
  by pat_completeness auto
termination
  by (relation "measure (\<lambda>n. n)") auto

declare str_nat.simps [simp del]

definition str_int :: "int \<Rightarrow> string" where
  "str_int i = (if i < 0 then CHR ''-'' # str_nat (nat (- i)) else str_nat (nat i))"

text \<open>Truthiness of an optional string (\<^verbatim>\<open>None\<close> and \<^verbatim>\<open>''\<close> are falsy) and of an optional
  integer (\<^verbatim>\<open>None\<close> and \<^verbatim>\<open>0\<close> are falsy).\<close>

definition truthy_str :: "string option \<Rightarrow> bool" where
  "truthy_str v = (case v of None \<Rightarrow> False | Some s \<Rightarrow> s \<noteq> [])"


text \<open>The value of a truthy argument; the falsy cases are never formatted.\<close>

definition the_str :: "string option \<Rightarrow> string" where
  "the_str v = (case v of None \<Rightarrow> [] | Some s \<Rightarrow> s)"


section \<open>The connection pool and \<^verbatim>\<open>execute_query\<close>\<close>

text \<open>
  A \<^verbatim>\<open>NeonDB\<close> object holds a \<^verbatim>\<open>ThreadedConnectionPool\<close>. The pool hands out at most
  \<open>maxconn\<close> connections at a time: \<^verbatim>\<open>getconn\<close> raises \<^verbatim>\<open>PoolError\<close> when that many are in
  use, \<^verbatim>\<open>putconn\<close> takes one back. \<open>used\<close> counts the connections handed out and not yet
  returned, \<open>store\<close> is the committed content of the database, and \<open>events\<close> records the
  calls made on the pool and the sleeps, in order.
\<close>

datatype event = EvCreatePool | EvSleep nat | EvGetconn | EvPutconn

record 's neondb =
  max_retries :: int
  maxconn :: nat
  used :: nat
  store :: 's
  events :: "event list"

text \<open>\<^verbatim>\<open>get_connection\<close>: one call of \<^verbatim>\<open>self.pool.getconn()\<close>; an exception is logged and
  raised again.\<close>

definition get_connection :: "'s neondb \<Rightarrow> (error + unit) \<times> 's neondb" where
  "get_connection db =
     (if used db < maxconn db
      then (Inr (), db\<lparr>used := Suc (used db), events := events db @ [EvGetconn]\<rparr>)
      else (Inl (Exc PoolError ''connection pool exhausted''),
            db\<lparr>events := events db @ [EvGetconn]\<rparr>))"

definition release_connection :: "'s neondb \<Rightarrow> 's neondb" where
  "release_connection db = db\<lparr>used := used db - 1, events := events db @ [EvPutconn]\<rparr>"

text \<open>
  \<^verbatim>\<open>execute_query\<close>. The argument \<open>stmt\<close> is what \<^verbatim>\<open>cursor.execute(query, params)\<close>, the fetch and
  \<^verbatim>\<open>conn.commit()\<close> do to the committed store: \<open>Inl e\<close> when one of them raises (the
  \<^verbatim>\<open>except\<close> branch rolls back, so the store stays as it was), \<open>Inr (r, s')\<close> when the
  transaction commits with result \<open>r\<close>. When \<^verbatim>\<open>get_connection\<close> raises, \<^verbatim>\<open>conn\<close> is still
  \<^verbatim>\<open>None\<close> and the \<^verbatim>\<open>finally\<close> block releases nothing.
\<close>

definition execute_query ::
  "('s \<Rightarrow> error + 'r \<times> 's) \<Rightarrow> 's neondb \<Rightarrow> (error + 'r) \<times> 's neondb" where
  "execute_query stmt db =
     (case get_connection db of
        (Inl e, db1) \<Rightarrow> (Inl e, db1)
      | (Inr _, db1) \<Rightarrow>
          (case stmt (store db1) of
             Inl e \<Rightarrow> (Inl e, release_connection db1)
           | Inr (r, s') \<Rightarrow> (Inr r, release_connection (db1\<lparr>store := s'\<rparr>))))"

text \<open>\<^verbatim>\<open>execute_many\<close> has the same shape, with \<^verbatim>\<open>cursor.executemany\<close> as the statement and the
  row count as the result.\<close>

definition execute_many ::
  "('s \<Rightarrow> error + int \<times> 's) \<Rightarrow> 's neondb \<Rightarrow> (error + int) \<times> 's neondb" where
  "execute_many stmt db =
     (case get_connection db of
        (Inl e, db1) \<Rightarrow> (Inl e, db1)
      | (Inr _, db1) \<Rightarrow>
          (case stmt (store db1) of
             Inl e \<Rightarrow> (Inl e, release_connection db1)
           | Inr (r, s') \<Rightarrow> (Inr r, release_connection (db1\<lparr>store := s'\<rparr>))))"

section \<open>\<^verbatim>\<open>select\<close>\<close>





section \<open>Creating the pool: \<^verbatim>\<open>NeonDB.__init__\<close>\<close>

text \<open>
  The constructor calls \<^verbatim>\<open>ThreadedConnectionPool(min_conn, max_conn, db_url)\<close> in a loop.
  Whether a call succeeds is decided outside the program: \<open>attempt k\<close> is \<open>None\<close> when the
  call made after \<open>k\<close> failures returns a pool, and \<open>Some e\<close> when it raises \<open>e\<close>.
  After the loop \<^verbatim>\<open>raise last_error\<close> raises the last exception; with no iteration at all
  \<^verbatim>\<open>last_error\<close> is still \<^verbatim>\<open>None\<close>, and raising \<^verbatim>\<open>None\<close> is a \<^verbatim>\<open>TypeError\<close>.
\<close>

function create_pool_loop ::
  "(nat \<Rightarrow> error option) \<Rightarrow> int \<Rightarrow> nat \<Rightarrow> error option \<Rightarrow> event list \<Rightarrow>
   (error + unit) \<times> event list" where
  "create_pool_loop attempt mr retry_count last_error evs =
     (if int retry_count < mr
      then (case attempt retry_count of
              None \<Rightarrow> (Inr (), evs @ [EvCreatePool])
            | Some e \<Rightarrow>
                create_pool_loop attempt mr (Suc retry_count) (Some e)
                  (if int (Suc retry_count) < mr
                   then evs @ [EvCreatePool, EvSleep 1]
                   else evs @ [EvCreatePool]))
      else (case last_error of
              None \<Rightarrow> (Inl (Exc TypeError ''exceptions must derive from BaseException''), evs)
            | Some e \<Rightarrow> (Inl e, evs)))"
  by pat_completeness auto
termination
  by (relation "measure (\<lambda>(attempt, mr, retry_count, last_error, evs). nat (mr - int retry_count))")
     auto

declare create_pool_loop.simps [simp del]

text \<open>The constructor: \<^verbatim>\<open>db_url or os.getenv('DATABASE_URL')\<close> must be truthy, then the loop
  runs. \<open>s0\<close> is the content of the database the pool connects to. The text of the
  \<^verbatim>\<open>ValueError\<close>, a configuration hint of three lines, is shortened to the variable it
  names.\<close>

definition neondb_init ::
  "string option \<Rightarrow> string option \<Rightarrow> nat \<Rightarrow> nat \<Rightarrow> int \<Rightarrow> (nat \<Rightarrow> error option) \<Rightarrow> 's \<Rightarrow>
   (error + 's neondb) \<times> event list" where
  "neondb_init db_url env_url min_conn max_conn mr attempt s0 =
     (if \<not> truthy_str (if truthy_str db_url then db_url else env_url)
      then (Inl (Exc ValueError ''DATABASE_URL''), [])
      else (case create_pool_loop attempt mr 0 None [] of
              (Inl e, evs) \<Rightarrow> (Inl e, evs)
            | (Inr _, evs) \<Rightarrow>
                (Inr \<lparr>max_retries = mr, maxconn = max_conn, used = 0, store = s0,
                      events = evs\<rparr>, evs)))"

section \<open>The accounts table\<close>

text \<open>
  A row of the table that \<^verbatim>\<open>create_accounts_table\<close> declares. \<^verbatim>\<open>domain\<close>, \<^verbatim>\<open>email\<close> and
  \<^verbatim>\<open>password\<close> are \<^verbatim>\<open>NOT NULL\<close>; the other text columns may hold \<^verbatim>\<open>NULL\<close> (\<open>None\<close>).
  Timestamps are numbers on one time axis. The two timestamp columns always hold a value:
  \<^verbatim>\<open>created_at\<close> is never written by the program and takes \<^verbatim>\<open>CURRENT_TIMESTAMP\<close>,
  \<^verbatim>\<open>updated_at\<close> is written by \<^verbatim>\<open>add_account\<close> and \<^verbatim>\<open>update_account\<close>.
\<close>

record account_row =
  row_id :: int
  domain :: string
  email :: string
  password :: string
  cookies_str :: "string option"
  api_key :: "string option"
  moe_mail_url :: "string option"
  quota :: "string option"
  days_remaining :: "string option"
  status :: "string option"
  created_at :: int
  updated_at :: int

record accounts_store =
  tbl :: "account_row list"
  next_id :: int

text \<open>
  The dictionary \<^verbatim>\<open>account_data\<close> / \<^verbatim>\<open>update_data\<close> with the keys the docstrings list. For each
  key, \<open>None\<close> says that the key is not in the dictionary, \<open>Some None\<close> that its value is
  \<^verbatim>\<open>None\<close>, \<open>Some (Some s)\<close> that its value is the string \<open>s\<close>. The key \<^verbatim>\<open>updated_at\<close> is
  overwritten by both functions before the dictionary is used, so it is no part of the
  input.
\<close>

record account_data =
  k_domain :: "string option option"
  k_email :: "string option option"
  k_password :: "string option option"
  k_cookies_str :: "string option option"
  k_api_key :: "string option option"
  k_moe_mail_url :: "string option option"
  k_quota :: "string option option"
  k_days_remaining :: "string option option"
  k_status :: "string option option"

text \<open>The declared lengths: \<^verbatim>\<open>VARCHAR(255)\<close> for domain, email, password and api_key,
  \<^verbatim>\<open>VARCHAR(50)\<close> for quota, days_remaining and status, \<^verbatim>\<open>TEXT\<close> for the rest.\<close>

definition fits :: "nat \<Rightarrow> string option option \<Rightarrow> bool" where
  "fits n v = (case v of Some (Some s) \<Rightarrow> length s \<le> n | _ \<Rightarrow> True)"

definition values_fit :: "account_data \<Rightarrow> bool" where
  "values_fit d =
     (fits 255 (k_domain d) \<and> fits 255 (k_email d) \<and> fits 255 (k_password d)
      \<and> fits 255 (k_api_key d) \<and> fits 50 (k_quota d) \<and> fits 50 (k_days_remaining d)
      \<and> fits 50 (k_status d))"

text \<open>Writing a key to a column: an absent key leaves the old (or default) value.\<close>

definition set_col :: "string option option \<Rightarrow> string option \<Rightarrow> string option" where
  "set_col k old = (case k of None \<Rightarrow> old | Some v \<Rightarrow> v)"

definition assign :: "account_data \<Rightarrow> int \<Rightarrow> account_row \<Rightarrow> account_row option" where
  "assign d now r =
     (case (set_col (k_domain d) (Some (domain r)), set_col (k_email d) (Some (email r)),
            set_col (k_password d) (Some (password r))) of
        (Some dm, Some em, Some pw) \<Rightarrow>
          Some (r\<lparr>domain := dm, email := em, password := pw,
                  cookies_str := set_col (k_cookies_str d) (cookies_str r),
                  api_key := set_col (k_api_key d) (api_key r),
                  moe_mail_url := set_col (k_moe_mail_url d) (moe_mail_url r),
                  quota := set_col (k_quota d) (quota r),
                  days_remaining := set_col (k_days_remaining d) (days_remaining r),
                  status := set_col (k_status d) (status r),
                  updated_at := now\<rparr>)
      | _ \<Rightarrow> None)"

text \<open>
  \<^verbatim>\<open>INSERT INTO accounts (...) VALUES (...) RETURNING id\<close> with the keys of the dictionary
  and \<^verbatim>\<open>updated_at\<close> as columns. Columns not named take their defaults: the next value of
  the \<^verbatim>\<open>SERIAL\<close> sequence, \<^verbatim>\<open>'active'\<close>, \<^verbatim>\<open>CURRENT_TIMESTAMP\<close> (\<open>srv\<close>, the server's
  clock), otherwise \<^verbatim>\<open>NULL\<close>. A value longer than its column, a \<^verbatim>\<open>NULL\<close> in a \<^verbatim>\<open>NOT NULL\<close>
  column and an email that some row already has make the statement raise.
\<close>

definition insert_stmt ::
  "account_data \<Rightarrow> int \<Rightarrow> int \<Rightarrow> accounts_store \<Rightarrow> error + int \<times> accounts_store" where
  "insert_stmt d now srv s =
     (if \<not> values_fit d then Inl (Exc DatabaseError ''value too long'')
      else (case (k_domain d, k_email d, k_password d) of
              (Some (Some dm), Some (Some em), Some (Some pw)) \<Rightarrow>
                if em \<in> set (map email (tbl s))
                then Inl (Exc DatabaseError ''duplicate key value'')
                else Inr (next_id s,
                          s\<lparr>tbl := tbl s @
                                 [\<lparr>row_id = next_id s, domain = dm, email = em, password = pw,
                                   cookies_str = set_col (k_cookies_str d) None,
                                   api_key = set_col (k_api_key d) None,
                                   moe_mail_url = set_col (k_moe_mail_url d) None,
                                   quota = set_col (k_quota d) None,
                                   days_remaining = set_col (k_days_remaining d) None,
                                   status = set_col (k_status d) (Some ''active''),
                                   created_at = srv, updated_at = now\<rparr>],
                             next_id := next_id s + 1\<rparr>)
            | _ \<Rightarrow> Inl (Exc DatabaseError ''null value in column'')))"

text \<open>
  \<^verbatim>\<open>UPDATE accounts SET ... WHERE id = %s\<close> with the keys of the dictionary and
  \<^verbatim>\<open>updated_at\<close> as columns; the result is \<^verbatim>\<open>cur.rowcount\<close>.
\<close>

definition update_stmt ::
  "int \<Rightarrow> account_data \<Rightarrow> int \<Rightarrow> accounts_store \<Rightarrow> error + nat \<times> accounts_store" where
  "update_stmt account_id d now s =
     (if \<not> values_fit d then Inl (Exc DatabaseError ''value too long'')
      else if list_ex (\<lambda>r. row_id r = account_id \<and> assign d now r = None) (tbl s)
      then Inl (Exc DatabaseError ''null value in column'')
      else (let t' = map (\<lambda>r. if row_id r = account_id then the (assign d now r) else r) (tbl s)
            in if distinct (map email t')
               then Inr (length (filter (\<lambda>r. row_id r = account_id) (tbl s)), s\<lparr>tbl := t'\<rparr>)
               else Inl (Exc DatabaseError ''duplicate key value'')))"

text \<open>\<^verbatim>\<open>SELECT * FROM accounts WHERE email = %s\<close>, one row fetched.\<close>

definition select_by_email_stmt ::
  "string \<Rightarrow> accounts_store \<Rightarrow> error + account_row option \<times> accounts_store" where
  "select_by_email_stmt e s = Inr (find (\<lambda>r. email r = e) (tbl s), s)"

text \<open>\<^verbatim>\<open>SELECT ... FROM accounts ORDER BY created_at DESC\<close>, all rows fetched. Rows with
  equal \<^verbatim>\<open>created_at\<close> are listed in table order.\<close>

definition select_all_stmt ::
  "accounts_store \<Rightarrow> error + account_row list \<times> accounts_store" where
  "select_all_stmt s = Inr (sort_key (\<lambda>r. - created_at r) (tbl s), s)"

section \<open>The accounts API\<close>

text \<open>\<^verbatim>\<open>insert(..., return_id=True)\<close>: the new id, or \<^verbatim>\<open>None\<close> when \<^verbatim>\<open>execute_query\<close>
  raises.\<close>

definition insert_returning ::
  "account_data \<Rightarrow> int \<Rightarrow> int \<Rightarrow> accounts_store neondb \<Rightarrow> int option \<times> accounts_store neondb" where
  "insert_returning d now srv db =
     (case execute_query (insert_stmt d now srv) db of
        (Inl e, db') \<Rightarrow> (None, db')
      | (Inr i, db') \<Rightarrow> (Some i, db'))"

text \<open>\<^verbatim>\<open>add_account\<close>: the three required keys must be in the dictionary, \<^verbatim>\<open>updated_at\<close> is
  set to \<^verbatim>\<open>datetime.now()\<close> (\<open>now\<close>, the client's clock), then the row is inserted.\<close>

definition add_account ::
  "account_data \<Rightarrow> int \<Rightarrow> int \<Rightarrow> accounts_store neondb \<Rightarrow> int option \<times> accounts_store neondb" where
  "add_account account_data now srv db =
     (if k_domain account_data = None \<or> k_email account_data = None
         \<or> k_password account_data = None
      then (None, db)
      else insert_returning account_data now srv db)"

definition get_account_by_email ::
  "string \<Rightarrow> accounts_store neondb \<Rightarrow> account_row option \<times> accounts_store neondb" where
  "get_account_by_email e db =
     (case execute_query (select_by_email_stmt e) db of
        (Inl err, db') \<Rightarrow> (None, db')
      | (Inr r, db') \<Rightarrow> (r, db'))"

text \<open>\<^verbatim>\<open>get_account_list()\<close> with its default arguments.\<close>

definition get_account_list ::
  "accounts_store neondb \<Rightarrow> account_row list option \<times> accounts_store neondb" where
  "get_account_list db =
     (case execute_query select_all_stmt db of
        (Inl err, db') \<Rightarrow> (None, db')
      | (Inr rs, db') \<Rightarrow> (Some rs, db'))"

text \<open>
  \<^verbatim>\<open>update_account\<close> does not go through \<^verbatim>\<open>execute_query\<close>. It takes a connection with
  \<^verbatim>\<open>with self.get_connection() as conn\<close>: leaving that block commits (or, on an exception,
  rolls back) the transaction, and nothing in the function hands the connection back to
  the pool. The result is \<^verbatim>\<open>cur.rowcount > 0\<close>, and \<^verbatim>\<open>False\<close> on any exception.
\<close>

definition update_account ::
  "int \<Rightarrow> account_data \<Rightarrow> int \<Rightarrow> accounts_store neondb \<Rightarrow> bool \<times> accounts_store neondb" where
  "update_account account_id update_data now db =
     (case get_connection db of
        (Inl e, db1) \<Rightarrow> (False, db1)
      | (Inr _, db1) \<Rightarrow>
          (case update_stmt account_id update_data now (store db1) of
             Inl e \<Rightarrow> (False, db1)
           | Inr (n, s') \<Rightarrow> (0 < n, db1\<lparr>store := s'\<rparr>)))"

section \<open>Text and files\<close>

text \<open>\<^verbatim>\<open>str.strip()\<close> removes white space at both ends (the ASCII white space characters),
  \<^verbatim>\<open>str.strip(c)\<close> the character \<open>c\<close>.\<close>

definition is_space :: "char \<Rightarrow> bool" where
  "is_space c = (c \<in> set [CHR 0x09, CHR 0x0A, CHR 0x0B, CHR 0x0C, CHR 0x0D,
                            CHR 0x1C, CHR 0x1D, CHR 0x1E, CHR 0x1F, CHR 0x20])"

definition strip_p :: "(char \<Rightarrow> bool) \<Rightarrow> string \<Rightarrow> string" where
  "strip_p p s = rev (dropWhile p (rev (dropWhile p s)))"

definition strip :: "string \<Rightarrow> string" where
  "strip s = strip_p is_space s"

definition strip_char :: "char \<Rightarrow> string \<Rightarrow> string" where
  "strip_char c s = strip_p (\<lambda>x. x = c) s"

definition startswith :: "string \<Rightarrow> string \<Rightarrow> bool" where
  "startswith s p = (take (length p) s = p)"

definition endswith :: "string \<Rightarrow> string \<Rightarrow> bool" where
  "endswith s p = (length p \<le> length s \<and> drop (length s - length p) s = p)"

text \<open>Splitting at every character that satisfies \<open>p\<close>; \<^verbatim>\<open>s.split(c)\<close> for a one-character
  separator.\<close>

fun split_p :: "(char \<Rightarrow> bool) \<Rightarrow> string \<Rightarrow> string list" where
  "split_p p [] = [[]]"
| "split_p p (c # cs) =
     (if p c then [] # split_p p cs
      else (case split_p p cs of [] \<Rightarrow> [[c]] | w # ws \<Rightarrow> (c # w) # ws))"

definition py_split :: "char \<Rightarrow> string \<Rightarrow> string list" where
  "py_split c s = split_p (\<lambda>x. x = c) s"

text \<open>
  The file system: the text of each file that exists, and the paths that can be opened
  for writing. \<^verbatim>\<open>open(path, 'r')\<close> raises when the file does not exist, \<^verbatim>\<open>open(path, 'w')\<close>
  when the path is not writable; a file is written as a whole.
\<close>

record fs =
  files :: "string \<rightharpoonup> string"
  writable :: "string \<Rightarrow> bool"

section \<open>\<^verbatim>\<open>import_from_csv\<close> and \<^verbatim>\<open>export_to_csv\<close>\<close>

text \<open>
  The \<^verbatim>\<open>.env\<close> branch. Iterating over the file gives its lines; every line is stripped, so
  it makes no difference that the line ends are split off here. A line without \<^verbatim>\<open>=\<close> makes
  the unpacking of \<^verbatim>\<open>line.split('=', 1)\<close> raise \<^verbatim>\<open>ValueError\<close> and is skipped. The parsed
  \<^verbatim>\<open>data\<close> maps a key to its value; a value can be \<^verbatim>\<open>None\<close> only in the CSV branch.
\<close>

definition env_line :: "(string \<rightharpoonup> string option) \<Rightarrow> string \<Rightarrow> (string \<rightharpoonup> string option)" where
  "env_line data raw =
     (let line = strip raw
      in if line \<noteq> [] \<and> \<not> startswith line ''#''
         then (if CHR ''='' \<in> set line
               then data(strip (takeWhile (\<lambda>x. x \<noteq> CHR ''='') line) \<mapsto>
                         Some (strip_char (CHR 0x22) (strip_char (CHR 0x27)
                                 (strip (tl (dropWhile (\<lambda>x. x \<noteq> CHR ''='') line))))))
               else data)
         else data)"

definition parse_env :: "string \<Rightarrow> (string \<rightharpoonup> string option)" where
  "parse_env text =
     foldl env_line Map.empty (split_p (\<lambda>x. x = CHR 0x0A \<or> x = CHR 0x0D) text)"

text \<open>
  The CSV branch. \<^verbatim>\<open>csv.reader\<close> belongs to Python's library: the rows it yields for a text
  are the argument \<open>rows\<close>. \<^verbatim>\<open>csv.DictReader\<close> takes the first row as field names, skips
  empty rows, and pairs the field names with the fields of a row, filling a short row
  with \<^verbatim>\<open>None\<close>; where a field name occurs twice the later field wins.
\<close>

definition dict_reader :: "string list list \<Rightarrow> (string \<times> string option) list list" where
  "dict_reader rows =
     (case rows of
        [] \<Rightarrow> []
      | fieldnames # rest \<Rightarrow>
          map (\<lambda>row. zip fieldnames
                        (map Some row @ replicate (length fieldnames - length row) None))
              (filter (\<lambda>row. row \<noteq> []) rest))"

definition row_get :: "(string \<times> string option) list \<Rightarrow> string \<Rightarrow> string option option" where
  "row_get row k = map_of (rev row) k"

text \<open>\<^verbatim>\<open>data[row['variable']] = row['value']\<close> for the rows that have both keys. A row whose
  \<^verbatim>\<open>variable\<close> is \<^verbatim>\<open>None\<close> stores under the key \<^verbatim>\<open>None\<close>, which is never read.\<close>

definition csv_row :: "(string \<rightharpoonup> string option) \<Rightarrow> (string \<times> string option) list \<Rightarrow>
    (string \<rightharpoonup> string option)" where
  "csv_row data row =
     (case (row_get row ''variable'', row_get row ''value'') of
        (Some (Some k), Some v) \<Rightarrow> data(k \<mapsto> v)
      | _ \<Rightarrow> data)"

definition parse_csv :: "string list list \<Rightarrow> (string \<rightharpoonup> string option)" where
  "parse_csv rows = foldl csv_row Map.empty (dict_reader rows)"

text \<open>\<^verbatim>\<open>data.get(key, '')\<close>.\<close>

definition data_get :: "(string \<rightharpoonup> string option) \<Rightarrow> string \<Rightarrow> string option" where
  "data_get data k = (case data k of None \<Rightarrow> Some [] | Some v \<Rightarrow> v)"

definition account_data_of :: "(string \<rightharpoonup> string option) \<Rightarrow> account_data" where
  "account_data_of data =
     \<lparr>k_domain = Some (data_get data ''DOMAIN''),
      k_email = Some (data_get data ''EMAIL''),
      k_password = Some (data_get data ''PASSWORD''),
      k_cookies_str = Some (data_get data ''COOKIES_STR''),
      k_api_key = Some (data_get data ''API_KEY''),
      k_moe_mail_url = Some (data_get data ''MOE_MAIL_URL''),
      k_quota = Some (data_get data ''QUOTA''),
      k_days_remaining = Some (data_get data ''DAYS''),
      k_status = None\<rparr>"

text \<open>The parsed \<^verbatim>\<open>data\<close> of a file, or the exception of \<^verbatim>\<open>open\<close> or of the CSV reader.\<close>

definition parse_file ::
  "(string \<Rightarrow> error + string list list) \<Rightarrow> fs \<Rightarrow> string \<Rightarrow> error + (string \<rightharpoonup> string option)" where
  "parse_file reader f path =
     (case files f path of
        None \<Rightarrow> Inl (Exc OSError ''No such file or directory'')
      | Some text \<Rightarrow>
          if endswith path ''.env'' then Inr (parse_env text)
          else (case reader text of Inl e \<Rightarrow> Inl e | Inr rows \<Rightarrow> Inr (parse_csv rows)))"

text \<open>
  \<^verbatim>\<open>import_from_csv\<close>. Every exception ends in \<^verbatim>\<open>return False\<close>. The result of
  \<^verbatim>\<open>add_account\<close> is tested with \<^verbatim>\<open>if result:\<close>, so the id 0 counts as a failure.
\<close>

definition import_from_csv ::
  "(string \<Rightarrow> error + string list list) \<Rightarrow> fs \<Rightarrow> string \<Rightarrow> int \<Rightarrow> int \<Rightarrow>
   accounts_store neondb \<Rightarrow> bool \<times> accounts_store neondb" where
  "import_from_csv reader f csv_file_path now srv db =
     (case parse_file reader f csv_file_path of
        Inl e \<Rightarrow> (False, db)
      | Inr data \<Rightarrow>
          if truthy_str (data_get data ''EMAIL'') \<and> truthy_str (data_get data ''PASSWORD'')
          then (case get_account_by_email (the_str (data_get data ''EMAIL'')) db of
                  (Some existing_account, db1) \<Rightarrow>
                    update_account (row_id existing_account) (account_data_of data) now db1
                | (None, db1) \<Rightarrow>
                    (case add_account (account_data_of data) now srv db1 of
                       (Some i, db2) \<Rightarrow> (i \<noteq> 0, db2)
                     | (None, db2) \<Rightarrow> (False, db2)))
          else (False, db))"

text \<open>The rows \<^verbatim>\<open>export_to_csv\<close> writes for one account: the three mandatory fields, and
  each of the five optional fields that is truthy.\<close>

definition opt_row :: "string \<Rightarrow> string option \<Rightarrow> string list list" where
  "opt_row key v = (if truthy_str v then [[key, the_str v]] else [])"

definition account_rows :: "account_row \<Rightarrow> string list list" where
  "account_rows account =
     [[''DOMAIN'', domain account], [''EMAIL'', email account],
      [''PASSWORD'', password account]]
     @ opt_row ''COOKIES_STR'' (cookies_str account)
     @ opt_row ''API_KEY'' (api_key account)
     @ opt_row ''MOE_MAIL_URL'' (moe_mail_url account)
     @ opt_row ''QUOTA'' (quota account)
     @ opt_row ''DAYS'' (days_remaining account)"

text \<open>
  \<^verbatim>\<open>export_to_csv\<close>: one file for all accounts, the header row first, then the rows of each
  account in the order of \<^verbatim>\<open>get_account_list\<close>. \<open>writerow\<close> is the text \<^verbatim>\<open>csv.writer\<close> writes
  for a row. \<^verbatim>\<open>False\<close> when there is no account or the file cannot be written.
\<close>

definition export_to_csv ::
  "(string list \<Rightarrow> string) \<Rightarrow> fs \<Rightarrow> string \<Rightarrow> accounts_store neondb \<Rightarrow>
   bool \<times> fs \<times> accounts_store neondb" where
  "export_to_csv writerow f csv_file_path db =
     (case get_account_list db of
        (None, db1) \<Rightarrow> (False, f, db1)
      | (Some accounts, db1) \<Rightarrow>
          if accounts = [] then (False, f, db1)
          else if writable f csv_file_path
          then (True,
                f\<lparr>files := (files f)(csv_file_path \<mapsto>
                     concat (map writerow
                       ([''variable'', ''value''] # concat (map account_rows accounts))))\<rparr>,
                db1)
          else (False, f, db1))"

text \<open>
  For texts whose fields hold no comma, quote or line break the CSV module is plain:
  a row is written as its fields joined by commas and ended by \<^verbatim>\<open>\r\n\<close>, and read back by
  splitting the non-empty lines at the commas.
\<close>

fun join_comma :: "string list \<Rightarrow> string" where
  "join_comma [] = []"
| "join_comma [x] = x"
| "join_comma (x # y # ys) = x @ '','' @ join_comma (y # ys)"

definition plain_writerow :: "string list \<Rightarrow> string" where
  "plain_writerow row = join_comma row @ [CHR 0x0D, CHR 0x0A]"

definition plain_reader :: "string \<Rightarrow> error + string list list" where
  "plain_reader text =
     Inr (map (py_split (CHR '',''))
            (filter (\<lambda>l. l \<noteq> []) (split_p (\<lambda>x. x = CHR 0x0A \<or> x = CHR 0x0D) text)))"

section \<open>The refresh worker: values from JSON\<close>

text \<open>
  What \<^verbatim>\<open>json.loads\<close> and \<^verbatim>\<open>response.json()\<close> return: \<^verbatim>\<open>None\<close>, a \<^verbatim>\<open>bool\<close>, an \<^verbatim>\<open>int\<close>, a
  \<^verbatim>\<open>str\<close>, a \<^verbatim>\<open>list\<close> or a \<^verbatim>\<open>dict\<close> given by its items (floating-point numbers are left
  out). \<open>truthy\<close> is Python's truth value, \<open>type_name\<close> the name that an
  \<^verbatim>\<open>AttributeError\<close> or \<^verbatim>\<open>TypeError\<close> prints.
\<close>

datatype json =
    JNull | JBool bool | JInt int | JStr string | JArr "json list"
  | JObj "(string \<times> json) list"

fun truthy :: "json \<Rightarrow> bool" where
  "truthy JNull = False"
| "truthy (JBool b) = b"
| "truthy (JInt i) = (i \<noteq> 0)"
| "truthy (JStr s) = (s \<noteq> [])"
| "truthy (JArr xs) = (xs \<noteq> [])"
| "truthy (JObj kvs) = (kvs \<noteq> [])"

fun type_name :: "json \<Rightarrow> string" where
  "type_name JNull = ''NoneType''"
| "type_name (JBool b) = ''bool''"
| "type_name (JInt i) = ''int''"
| "type_name (JStr s) = ''str''"
| "type_name (JArr xs) = ''list''"
| "type_name (JObj kvs) = ''dict''"

definition no_attribute :: "string \<Rightarrow> string \<Rightarrow> error" where
  "no_attribute ty attr =
     Exc AttributeError ([CHR 0x27] @ ty @ [CHR 0x27] @ '' object has no attribute ''
                         @ [CHR 0x27] @ attr @ [CHR 0x27])"

text \<open>\<^verbatim>\<open>d.get(key, default)\<close>: only a \<^verbatim>\<open>dict\<close> has the method.\<close>

definition dict_get :: "json \<Rightarrow> string \<Rightarrow> json \<Rightarrow> error + json" where
  "dict_get d key dflt =
     (case d of
        JObj kvs \<Rightarrow> Inr (case map_of kvs key of None \<Rightarrow> dflt | Some v \<Rightarrow> v)
      | _ \<Rightarrow> Inl (no_attribute (type_name d) ''get''))"

text \<open>
  The parts of the worker that lie outside the given sources: \<^verbatim>\<open>Utils.extract_token\<close> (its
  module is not among them; it may raise, return \<^verbatim>\<open>None\<close> or return a string),
  \<^verbatim>\<open>base64.b64decode\<close>, \<^verbatim>\<open>json.loads\<close>, the remote service behind
  \<^verbatim>\<open>session.get(url).json()\<close> for a \<^verbatim>\<open>Cookie\<close> header, Python's \<^verbatim>\<open>str\<close> of a list or
  dict, and the CSV module.
\<close>

record ext =
  extract_token :: "string \<Rightarrow> string \<Rightarrow> error + string option"
  b64decode :: "string \<Rightarrow> error + string"
  json_loads :: "string \<Rightarrow> error + json"
  http_get :: "string \<Rightarrow> string \<Rightarrow> error + json"
  py_repr :: "json \<Rightarrow> string"
  csv_reader :: "string \<Rightarrow> error + string list list"
  csv_writerow :: "string list \<Rightarrow> string"

text \<open>\<^verbatim>\<open>str(v)\<close>, as the f-strings and \<^verbatim>\<open>str()\<close> calls of the worker use it.\<close>

definition py_str :: "ext \<Rightarrow> json \<Rightarrow> string" where
  "py_str x v =
     (case v of
        JNull \<Rightarrow> ''None''
      | JBool b \<Rightarrow> (if b then ''True'' else ''False'')
      | JInt i \<Rightarrow> str_int i
      | JStr s \<Rightarrow> s
      | _ \<Rightarrow> py_repr x v)"

text \<open>The texts of the worker. \<open>unknown\<close> is the sentinel of the source, a word of two
  Chinese characters, in UTF-8.\<close>

definition unknown :: string where
  "unknown = [CHR 0xE6, CHR 0x9C, CHR 0xAA, CHR 0xE7, CHR 0x9F, CHR 0xA5]"

definition msg_no_cookie :: string where
  "msg_no_cookie = ''Cookie'' @ [CHR 0xE4, CHR 0xBF, CHR 0xA1, CHR 0xE6, CHR 0x81, CHR 0xAF,
     CHR 0xE4, CHR 0xB8, CHR 0x8D, CHR 0xE8, CHR 0x83, CHR 0xBD, CHR 0xE4, CHR 0xB8, CHR 0xBA,
     CHR 0xE7, CHR 0xA9, CHR 0xBA]"

definition msg_bad_jwt :: string where
  "msg_bad_jwt = [CHR 0xE6, CHR 0x97, CHR 0xA0, CHR 0xE6, CHR 0x95, CHR 0x88, CHR 0xE7, CHR 0x9A,
     CHR 0x84] @ '' JWT '' @ [CHR 0xE6, CHR 0xA0, CHR 0xBC, CHR 0xE5, CHR 0xBC, CHR 0x8F]"

definition msg_no_sub :: string where
  "msg_no_sub = ''JWT '' @ [CHR 0xE4, CHR 0xB8, CHR 0xAD, CHR 0xE6, CHR 0x9C, CHR 0xAA, CHR 0xE6,
     CHR 0x89, CHR 0xBE, CHR 0xE5, CHR 0x88, CHR 0xB0, CHR 0xE7, CHR 0x94, CHR 0xA8, CHR 0xE6,
     CHR 0x88, CHR 0xB7] @ '' ID''"

definition msg_jwt_fail :: string where
  "msg_jwt_fail = ''JWT '' @ [CHR 0xE8, CHR 0xA7, CHR 0xA3, CHR 0xE6, CHR 0x9E, CHR 0x90, CHR 0xE5,
     CHR 0xA4, CHR 0xB1, CHR 0xE8, CHR 0xB4, CHR 0xA5] @ '': ''"

definition msg_api_fail :: string where
  "msg_api_fail = ''API'' @ [CHR 0xE8, CHR 0xAF, CHR 0xB7, CHR 0xE6, CHR 0xB1, CHR 0x82, CHR 0xE5,
     CHR 0xA4, CHR 0xB1, CHR 0xE8, CHR 0xB4, CHR 0xA5] @ '': ''"

definition msg_info_fail :: string where
  "msg_info_fail = [CHR 0xE8, CHR 0x8E, CHR 0xB7, CHR 0xE5, CHR 0x8F, CHR 0x96, CHR 0xE8, CHR 0xB4,
     CHR 0xA6, CHR 0xE5, CHR 0x8F, CHR 0xB7, CHR 0xE4, CHR 0xBF, CHR 0xA1, CHR 0xE6, CHR 0x81,
     CHR 0xAF, CHR 0xE5, CHR 0xA4, CHR 0xB1, CHR 0xE8, CHR 0xB4, CHR 0xA5] @ '': ''"

definition msg_handle_jwt :: string where
  "msg_handle_jwt = [CHR 0xE5, CHR 0xA4, CHR 0x84, CHR 0xE7, CHR 0x90, CHR 0x86] @ '' JWT ''
     @ [CHR 0xE5, CHR 0xA4, CHR 0xB1, CHR 0xE8, CHR 0xB4, CHR 0xA5] @ '': ''"

section \<open>\<^verbatim>\<open>extract_user_id_from_jwt\<close>\<close>

text \<open>\<^verbatim>\<open>payload += '=' * (-len(payload) % 4)\<close>.\<close>

definition pad_payload :: "string \<Rightarrow> string" where
  "pad_payload payload = payload @ replicate (nat ((- int (length payload)) mod 4)) CHR ''=''"

text \<open>
  The body of the \<^verbatim>\<open>try\<close> block. A \<^verbatim>\<open>None\<close> from \<^verbatim>\<open>extract_token\<close> has no \<^verbatim>\<open>split\<close>, and a
  decoded payload that is no \<^verbatim>\<open>dict\<close> has no \<^verbatim>\<open>get\<close>. The result is the value under
  \<^verbatim>\<open>'sub'\<close>, which must be truthy.
\<close>

definition jwt_body :: "ext \<Rightarrow> string \<Rightarrow> error + json" where
  "jwt_body x cookies =
     (case extract_token x cookies ''WorkosCursorSessionToken'' of
        Inl e \<Rightarrow> Inl e
      | Inr None \<Rightarrow> Inl (no_attribute ''NoneType'' ''split'')
      | Inr (Some jwt_token) \<Rightarrow>
          (case py_split (CHR ''.'') jwt_token of
             [p0, payload, p2] \<Rightarrow>
               (case b64decode x (pad_payload payload) of
                  Inl e \<Rightarrow> Inl e
                | Inr decoded \<Rightarrow>
                    (case json_loads x decoded of
                       Inl e \<Rightarrow> Inl e
                     | Inr payload_data \<Rightarrow>
                         (case dict_get payload_data ''sub'' JNull of
                            Inl e \<Rightarrow> Inl e
                          | Inr user_id \<Rightarrow>
                              if truthy user_id then Inr user_id
                              else Inl (Exc ValueError msg_no_sub))))
           | _ \<Rightarrow> Inl (Exc ValueError msg_bad_jwt)))"

text \<open>Every exception of the body is turned into a \<^verbatim>\<open>ValueError\<close>.\<close>

definition extract_user_id_from_jwt :: "ext \<Rightarrow> string \<Rightarrow> error + json" where
  "extract_user_id_from_jwt x cookies =
     (case jwt_body x cookies of
        Inl e \<Rightarrow> Inl (Exc ValueError (msg_jwt_fail @ str_exc e))
      | Inr user_id \<Rightarrow> Inr user_id)"

section \<open>\<^verbatim>\<open>get_trial_usage\<close>\<close>

text \<open>\<^verbatim>\<open>make_request\<close>: a \<^verbatim>\<open>RequestException\<close> becomes a \<^verbatim>\<open>ValueError\<close>, any other exception
  passes.\<close>

definition make_request :: "ext \<Rightarrow> string \<Rightarrow> string \<Rightarrow> error + json" where
  "make_request x cookie url =
     (case http_get x url cookie of
        Inl (Exc RequestException m) \<Rightarrow> Inl (Exc ValueError (msg_api_fail @ m))
      | Inl e \<Rightarrow> Inl e
      | Inr v \<Rightarrow> Inr v)"

text \<open>
  \<^verbatim>\<open>domain = email.split('@')[-1] if '@' in email else\<close> the sentinel. The test is a substring
  test on a string, a membership test on a list or dict, and a \<^verbatim>\<open>TypeError\<close> otherwise;
  only a string has \<^verbatim>\<open>split\<close>.
\<close>

definition domain_of :: "json \<Rightarrow> error + string" where
  "domain_of email_v =
     (case email_v of
        JStr s \<Rightarrow> Inr (if CHR ''@'' \<in> set s then last (py_split (CHR ''@'') s) else unknown)
      | JArr xs \<Rightarrow> (if JStr ''@'' \<in> set xs then Inl (no_attribute ''list'' ''split'')
                     else Inr unknown)
      | JObj kvs \<Rightarrow> (if ''@'' \<in> set (map fst kvs) then Inl (no_attribute ''dict'' ''split'')
                      else Inr unknown)
      | _ \<Rightarrow> Inl (Exc TypeError (''argument of type '' @ [CHR 0x27] @ type_name email_v
                                   @ [CHR 0x27] @ '' is not iterable'')))"

text \<open>
  The inner \<^verbatim>\<open>try\<close> block: the three requests, then the derived fields in the order of the
  source. The result is \<^verbatim>\<open>(domain, email, quota, days)\<close>.
\<close>

definition usage_body :: "ext \<Rightarrow> string \<Rightarrow> json \<Rightarrow> error + string \<times> json \<times> string \<times> string" where
  "usage_body x cookie user_id =
     (case make_request x cookie ''https://www.cursor.com/api/auth/me'' of
        Inl e \<Rightarrow> Inl e
      | Inr user_info \<Rightarrow>
     (case dict_get user_info ''email'' (JStr unknown) of
        Inl e \<Rightarrow> Inl e
      | Inr email_v \<Rightarrow>
     (case domain_of email_v of
        Inl e \<Rightarrow> Inl e
      | Inr domain_v \<Rightarrow>
     (case make_request x cookie ''https://www.cursor.com/api/auth/stripe'' of
        Inl e \<Rightarrow> Inl e
      | Inr trial_data \<Rightarrow>
     (case dict_get trial_data ''daysRemainingOnTrial'' (JStr unknown) of
        Inl e \<Rightarrow> Inl e
      | Inr days \<Rightarrow>
     (case make_request x cookie
             (''https://www.cursor.com/api/usage?user='' @ py_str x user_id) of
        Inl e \<Rightarrow> Inl e
      | Inr usage_data \<Rightarrow>
     (case dict_get usage_data ''gpt-4'' (JObj []) of
        Inl e \<Rightarrow> Inl e
      | Inr gpt4_data \<Rightarrow>
     (case dict_get gpt4_data ''numRequestsTotal'' (JInt 0) of
        Inl e \<Rightarrow> Inl e
      | Inr used_quota \<Rightarrow>
     (case dict_get gpt4_data ''maxRequestUsage'' (JInt 0) of
        Inl e \<Rightarrow> Inl e
      | Inr max_quota \<Rightarrow>
          Inr (domain_v, email_v,
               (if truthy max_quota
                then py_str x used_quota @ '' / '' @ py_str x max_quota
                else unknown),
               py_str x days))))))))))"

text \<open>\<^verbatim>\<open>get_trial_usage\<close>: the empty cookie is refused first; the cookie name is put in front
  when it is missing; the two \<^verbatim>\<open>except\<close> clauses wrap the messages.\<close>

definition get_trial_usage ::
  "ext \<Rightarrow> string \<Rightarrow> error + string \<times> json \<times> string \<times> string" where
  "get_trial_usage x cookie_str =
     (if cookie_str = [] then Inl (Exc ValueError msg_no_cookie)
      else (case extract_user_id_from_jwt x cookie_str of
              Inl e \<Rightarrow> Inl (Exc ValueError (msg_handle_jwt @ str_exc e))
            | Inr user_id \<Rightarrow>
                (case usage_body x
                        (if startswith cookie_str ''WorkosCursorSessionToken='' then cookie_str
                         else ''WorkosCursorSessionToken='' @ cookie_str)
                        user_id of
                   Inl e \<Rightarrow>
                     Inl (Exc ValueError (msg_handle_jwt @ msg_info_fail @ str_exc e))
                 | Inr r \<Rightarrow> Inr r)))"

section \<open>Refreshing one account\<close>

















section \<open>The batch refresh: \<^verbatim>\<open>update_account_info\<close>\<close>









datatype notice =
    ShowSuccess string
  | ShowWarning string string
  | ShowError string string









section \<open>The manual backup\<close>

definition msg_no_env :: string where
  "msg_no_env =
     [CHR 0xE6, CHR 0x9C, CHR 0xAA, CHR 0xE6, CHR 0x89, CHR 0xBE, CHR 0xE5, CHR 0x88,
     CHR 0xB0, CHR 0xE8, CHR 0xB4, CHR 0xA6, CHR 0xE5, CHR 0x8F, CHR 0xB7, CHR 0xE4,
     CHR 0xBF, CHR 0xA1, CHR 0xE6, CHR 0x81, CHR 0xAF, CHR 0xEF, CHR 0xBC, CHR 0x8C,
     CHR 0xE8, CHR 0xAF, CHR 0xB7, CHR 0xE5, CHR 0x85, CHR 0x88, CHR 0xE6, CHR 0xB3,
     CHR 0xA8, CHR 0xE5, CHR 0x86, CHR 0x8C, CHR 0xE6, CHR 0x88, CHR 0x96, CHR 0xE6,
     CHR 0x9B, CHR 0xB4, CHR 0xE6, CHR 0x96, CHR 0xB0, CHR 0xE8, CHR 0xB4, CHR 0xA6,
     CHR 0xE5, CHR 0x8F, CHR 0xB7]"

definition msg_no_acc :: string where
  "msg_no_acc =
     [CHR 0xE6, CHR 0x9C, CHR 0xAA, CHR 0xE6, CHR 0x89, CHR 0xBE, CHR 0xE5, CHR 0x88,
     CHR 0xB0, CHR 0xE8, CHR 0xB4, CHR 0xA6, CHR 0xE5, CHR 0x8F, CHR 0xB7, CHR 0xE4,
     CHR 0xBF, CHR 0xA1, CHR 0xE6, CHR 0x81, CHR 0xAF]"

definition t_backup_fail :: string where
  "t_backup_fail =
     [CHR 0xE8, CHR 0xB4, CHR 0xA6, CHR 0xE5, CHR 0x8F, CHR 0xB7, CHR 0xE5, CHR 0xA4,
     CHR 0x87, CHR 0xE4, CHR 0xBB, CHR 0xBD, CHR 0xE5, CHR 0xA4, CHR 0xB1, CHR 0xE8,
     CHR 0xB4, CHR 0xA5]"

definition m_backup_ok :: string where
  "m_backup_ok =
     [CHR 0xE8, CHR 0xB4, CHR 0xA6, CHR 0xE5, CHR 0x8F, CHR 0xB7, CHR 0xE5, CHR 0xA4,
     CHR 0x87, CHR 0xE4, CHR 0xBB, CHR 0xBD, CHR 0xE6, CHR 0x88, CHR 0x90, CHR 0xE5,
     CHR 0x8A, CHR 0x9F, CHR 0x0A, CHR 0xE4, CHR 0xBF, CHR 0x9D, CHR 0xE5, CHR 0xAD,
     CHR 0x98, CHR 0xE4, CHR 0xBD, CHR 0x8D, CHR 0xE7, CHR 0xBD, CHR 0xAE] @ '': ''"

text \<open>
  \<^verbatim>\<open>RegisterTab.backup_account\<close>, the body of \<^verbatim>\<open>backup_thread\<close>. \<open>env_email\<close> is
  \<^verbatim>\<open>os.getenv("EMAIL")\<close> and \<open>timestamp\<close> the text of \<^verbatim>\<open>strftime("%Y%m%d_%H%M%S")\<close>. The file is
  written with plain \<^verbatim>\<open>f.write\<close>, one line per truthy field. The last step calls
  \<^verbatim>\<open>self.db.backup_account(...)\<close>: the class \<^verbatim>\<open>NeonDB\<close> defines no such method, so the call
  raises \<^verbatim>\<open>AttributeError\<close>, after the file has been written, and the \<^verbatim>\<open>except\<close> clause shows
  the error. The success notice behind that call is never reached.
\<close>

definition backup_line :: "string \<Rightarrow> string option \<Rightarrow> string" where
  "backup_line key v = (if truthy_str v then key @ '','' @ the_str v @ [CHR 0x0A] else [])"

definition backup_text :: "account_row \<Rightarrow> string" where
  "backup_text account =
     ''variable,value'' @ [CHR 0x0A]
     @ backup_line ''DOMAIN'' (Some (domain account))
     @ backup_line ''EMAIL'' (Some (email account))
     @ backup_line ''PASSWORD'' (Some (password account))
     @ backup_line ''COOKIES_STR'' (cookies_str account)
     @ backup_line ''API_KEY'' (api_key account)
     @ backup_line ''MOE_MAIL_URL'' (moe_mail_url account)
     @ backup_line ''QUOTA'' (quota account)
     @ backup_line ''DAYS'' (days_remaining account)"

definition backup_path :: "string \<Rightarrow> string" where
  "backup_path timestamp = ''env_backups/cursor_account_'' @ timestamp @ ''.csv''"

definition backup_account ::
  "string option \<Rightarrow> string \<Rightarrow> fs \<Rightarrow> accounts_store neondb \<Rightarrow>
   notice \<times> fs \<times> accounts_store neondb" where
  "backup_account env_email timestamp f db =
     (if truthy_str env_email
      then (case get_account_by_email (the_str env_email) db of
              (None, db1) \<Rightarrow> (ShowError t_backup_fail msg_no_acc, f, db1)
            | (Some account, db1) \<Rightarrow>
                if writable f (backup_path timestamp)
                then (ShowError t_backup_fail
                        (str_exc (no_attribute ''NeonDB'' ''backup_account'')),
                      f\<lparr>files := (files f)(backup_path timestamp \<mapsto> backup_text account)\<rparr>,
                      db1)
                else (ShowError t_backup_fail ''Permission denied'', f, db1))
      else (ShowError t_backup_fail msg_no_env, f, db))"

section \<open>Traces and example states\<close>

text \<open>\<open>n\<close> attempts \<open>ev\<close> with a sleep of one second between two consecutive attempts.\<close>

fun attempts_trace :: "event \<Rightarrow> nat \<Rightarrow> event list" where
  "attempts_trace ev 0 = []"
| "attempts_trace ev (Suc 0) = [ev]"
| "attempts_trace ev (Suc (Suc n)) = ev # EvSleep 1 # attempts_trace ev (Suc n)"

text \<open>The exception the constructor raises when every attempt failed: the one of attempt
  number \<open>mr\<close>, or the \<^verbatim>\<open>TypeError\<close> when no attempt was made.\<close>

definition last_error_of :: "(nat \<Rightarrow> error option) \<Rightarrow> int \<Rightarrow> error" where
  "last_error_of attempt mr =
     (case (if mr \<le> 0 then None else attempt (nat mr - 1)) of
        None \<Rightarrow> Exc TypeError ''exceptions must derive from BaseException''
      | Some e \<Rightarrow> e)"

text \<open>The account of the spec's scenario, stored at time 10, in a database whose pool has
  one connection; the same pool with its connection handed out; and the update
  \<^verbatim>\<open>{'quota': '5 / 100'}\<close>.\<close>

definition row_a :: account_row where
  "row_a = \<lparr>row_id = 1, domain = ''example.com'', email = ''a@example.com'', password = ''p'',
            cookies_str = None, api_key = None, moe_mail_url = None, quota = None,
            days_remaining = None, status = Some ''active'', created_at = 10,
            updated_at = 10\<rparr>"

definition db_one :: "accounts_store neondb" where
  "db_one = \<lparr>max_retries = 3, maxconn = 1, used = 0,
             store = \<lparr>tbl = [row_a], next_id = 2\<rparr>, events = []\<rparr>"

definition db_exhausted :: "accounts_store neondb" where
  "db_exhausted = db_one\<lparr>used := 1\<rparr>"

definition no_keys :: account_data where
  "no_keys = \<lparr>k_domain = None, k_email = None, k_password = None, k_cookies_str = None,
              k_api_key = None, k_moe_mail_url = None, k_quota = None,
              k_days_remaining = None, k_status = None\<rparr>"

definition quota_5_of_100 :: account_data where
  "quota_5_of_100 = no_keys\<lparr>k_quota := Some (Some ''5 / 100'')\<rparr>"

text \<open>A second account, stored at time 20, with a session cookie; databases with a pool of
  five connections holding no account, the first account, and both.\<close>

definition row_b :: account_row where
  "row_b = \<lparr>row_id = 2, domain = ''b.org'', email = ''b@b.org'', password = ''q'',
            cookies_str = Some ''tokB'', api_key = None, moe_mail_url = None, quota = None,
            days_remaining = None, status = Some ''active'', created_at = 20,
            updated_at = 20\<rparr>"

definition db_two :: "accounts_store neondb" where
  "db_two = \<lparr>max_retries = 3, maxconn = 5, used = 0,
             store = \<lparr>tbl = [row_a, row_b], next_id = 3\<rparr>, events = []\<rparr>"

definition db_empty :: "accounts_store neondb" where
  "db_empty = \<lparr>max_retries = 3, maxconn = 5, used = 0,
             store = \<lparr>tbl = [], next_id = 1\<rparr>, events = []\<rparr>"

definition db_a :: "accounts_store neondb" where
  "db_a = \<lparr>max_retries = 3, maxconn = 5, used = 0,
           store = \<lparr>tbl = [row_a], next_id = 2\<rparr>, events = [EvGetconn, EvPutconn]\<rparr>"

text \<open>The dictionary of the scenario's insertion, with \<^verbatim>\<open>quota\<close> given as \<^verbatim>\<open>None\<close>.\<close>

definition new_a :: account_data where
  "new_a = no_keys\<lparr>k_domain := Some (Some ''example.com''),
                   k_email := Some (Some ''a@example.com''),
                   k_password := Some (Some ''p''), k_quota := Some None\<rparr>"

text \<open>An empty, writable file system, and the text \<^verbatim>\<open>export_to_csv\<close> writes for the two
  accounts.\<close>

definition fs0 :: fs where "fs0 = \<lparr>files = Map.empty, writable = (\<lambda>p. True)\<rparr>"

definition exported_text :: string where
  "exported_text = ''variable,value'' @ [CHR 0x0D, CHR 0x0A]
     @ ''DOMAIN,b.org'' @ [CHR 0x0D, CHR 0x0A]
     @ ''EMAIL,b@b.org'' @ [CHR 0x0D, CHR 0x0A]
     @ ''PASSWORD,q'' @ [CHR 0x0D, CHR 0x0A]
     @ ''COOKIES_STR,tokB'' @ [CHR 0x0D, CHR 0x0A]
     @ ''DOMAIN,example.com'' @ [CHR 0x0D, CHR 0x0A]
     @ ''EMAIL,a@example.com'' @ [CHR 0x0D, CHR 0x0A]
     @ ''PASSWORD,p'' @ [CHR 0x0D, CHR 0x0A]"




text \<open>The states of the scenario after the update and after the read.\<close>

definition row_u :: account_row where
  "row_u = row_a\<lparr>quota := Some ''5 / 100'', updated_at := 20\<rparr>"

definition db_u :: "accounts_store neondb" where
  "db_u = \<lparr>max_retries = 3, maxconn = 5, used = 1,
           store = \<lparr>tbl = [row_u], next_id = 2\<rparr>,
           events = [EvGetconn, EvPutconn, EvGetconn]\<rparr>"

definition db_r :: "accounts_store neondb" where
  "db_r = db_u\<lparr>events := [EvGetconn, EvPutconn, EvGetconn, EvGetconn, EvPutconn]\<rparr>"

text \<open>
  Stand-ins for the outside of the worker, for the examples. \<^verbatim>\<open>extract_token\<close> gives what
  follows the cookie name; the decoder and the JSON reader know two payloads,
  \<^verbatim>\<open>{"sub":"user_1"}\<close> and \<^verbatim>\<open>{"exp":1}\<close>; the service answers the three requests of user
  \<^verbatim>\<open>user_1\<close>. In \<open>ext_no_used\<close> the usage answer has no \<^verbatim>\<open>numRequestsTotal\<close>.
\<close>

definition sub_text :: string where
  "sub_text = ''{'' @ [CHR 0x22] @ ''sub'' @ [CHR 0x22] @ '':'' @ [CHR 0x22] @ ''user_1''
              @ [CHR 0x22] @ ''}''"

definition exp_text :: string where
  "exp_text = ''{'' @ [CHR 0x22] @ ''exp'' @ [CHR 0x22] @ '':1}''"

definition ext_ok :: ext where
  "ext_ok =
     \<lparr>extract_token = (\<lambda>c k. if startswith c (k @ ''='')
                              then Inr (Some (drop (length k + 1) c)) else Inr (Some c)),
      b64decode = (\<lambda>s. if s = ''eyJzdWIiOiJ1c2VyXzEifQ=='' then Inr sub_text
                       else if s = ''eyJleHAiOjF9'' then Inr exp_text
                       else Inl (Exc DecodeError ''Incorrect padding'')),
      json_loads = (\<lambda>s. if s = sub_text then Inr (JObj [(''sub'', JStr ''user_1'')])
                        else if s = exp_text then Inr (JObj [(''exp'', JInt 1)])
                        else Inl (Exc DecodeError ''Expecting value'')),
      http_get = (\<lambda>url cookie.
         if url = ''https://www.cursor.com/api/auth/me''
         then Inr (JObj [(''email'', JStr ''a@example.com'')])
         else if url = ''https://www.cursor.com/api/auth/stripe''
         then Inr (JObj [(''daysRemainingOnTrial'', JInt 14)])
         else if url = ''https://www.cursor.com/api/usage?user=user_1''
         then Inr (JObj [(''gpt-4'', JObj [(''numRequestsTotal'', JInt 5),
                                            (''maxRequestUsage'', JInt 150)])])
         else Inl (Exc RequestException ''404 Client Error'')),
      py_repr = (\<lambda>v. ''...''),
      csv_reader = plain_reader,
      csv_writerow = plain_writerow\<rparr>"

definition ext_no_used :: ext where
  "ext_no_used = ext_ok\<lparr>http_get := (\<lambda>url cookie.
         if url = ''https://www.cursor.com/api/usage?user=user_1''
         then Inr (JObj [(''gpt-4'', JObj [(''maxRequestUsage'', JInt 150)])])
         else http_get ext_ok url cookie)\<rparr>"

definition cookie_1 :: string where
  "cookie_1 = ''WorkosCursorSessionToken=hdr.eyJzdWIiOiJ1c2VyXzEifQ.sig''"











text \<open>A file system in which a backup of the same second already exists.\<close>

definition fs_old :: fs where
  "fs_old = \<lparr>files = [''env_backups/cursor_account_20250101_000000.csv'' \<mapsto> ''old''],
             writable = (\<lambda>p. True)\<rparr>"

section \<open>Verified properties\<close>

subsection \<open>\<^verbatim>\<open>select\<close>\<close>


subsection \<open>Connections\<close>

lemma execute_query_used: "used (snd (execute_query stmt db)) = used db"
  by (simp add: execute_query_def get_connection_def release_connection_def
           split: sum.splits prod.splits)

lemma execute_many_used: "used (snd (execute_many stmt db)) = used db"
  by (simp add: execute_many_def get_connection_def release_connection_def
           split: sum.splits prod.splits)

lemma update_account_used:
  "used (snd (update_account i d now db)) =
     (if used db < maxconn db then Suc (used db) else used db)"
  by (simp add: update_account_def get_connection_def split: sum.splits prod.splits)

text \<open>
  Claim C3 (every operation gives its connection back on every exit path) fails for
  \<^verbatim>\<open>update_account\<close>. \<^verbatim>\<open>execute_query\<close> and \<^verbatim>\<open>execute_many\<close> leave \<open>used\<close> as they found
  it (the two lemmas above). \<^verbatim>\<open>update_account\<close> on the one-account database succeeds and
  keeps the connection: the pool has seen one \<^verbatim>\<open>getconn\<close> and no \<^verbatim>\<open>putconn\<close>, its only
  connection stays in use, and the next lookup of the stored account finds the pool
  exhausted and returns \<^verbatim>\<open>None\<close>.
\<close>

theorem update_account_keeps_connection:
  "fst (update_account 1 quota_5_of_100 20 db_one) = True
   \<and> used (snd (update_account 1 quota_5_of_100 20 db_one)) = Suc (used db_one)
   \<and> events (snd (update_account 1 quota_5_of_100 20 db_one)) = [EvGetconn]
   \<and> fst (get_account_by_email ''a@example.com''
            (snd (update_account 1 quota_5_of_100 20 db_one))) = None
   \<and> fst (get_account_by_email ''a@example.com'' db_one) = Some row_a"
  by (simp add: update_account_def get_connection_def update_stmt_def values_fit_def fits_def
        assign_def set_col_def quota_5_of_100_def no_keys_def db_one_def row_a_def
        get_account_by_email_def execute_query_def select_by_email_stmt_def
        release_connection_def)

subsection \<open>Creating the pool\<close>

lemma attempts_trace_Suc:
  "attempts_trace ev (Suc n) = concat (replicate n [ev, EvSleep 1]) @ [ev]"
  by (induction n) simp_all

lemma loop_success:
  "attempt k = None \<Longrightarrow> int k < mr \<Longrightarrow> i \<le> k \<Longrightarrow>
   \<forall>j. i \<le> j \<and> j < k \<longrightarrow> attempt j \<noteq> None \<Longrightarrow>
   create_pool_loop attempt mr i le evs =
     (Inr (), evs @ concat (replicate (k - i) [EvCreatePool, EvSleep 1]) @ [EvCreatePool])"
proof (induction "k - i" arbitrary: i le evs)
  case 0
  then have "i = k" by simp
  with 0 show ?case by (simp add: create_pool_loop.simps [of attempt mr k])
next
  case (Suc n)
  then have lt: "i < k" and ne: "attempt i \<noteq> None" by auto
  then obtain e where e: "attempt i = Some e" by auto
  have n: "n = k - Suc i" using Suc.hyps by simp
  have step: "create_pool_loop attempt mr (Suc i) (Some e) (evs @ [EvCreatePool, EvSleep 1]) =
     (Inr (), (evs @ [EvCreatePool, EvSleep 1])
              @ concat (replicate (k - Suc i) [EvCreatePool, EvSleep 1]) @ [EvCreatePool])"
    using Suc.prems lt by (intro Suc.hyps(1) n) auto
  have rep: "k - i = Suc (k - Suc i)" using lt by simp
  show ?case
    using lt Suc.prems(2) e step
    by (subst create_pool_loop.simps) (simp add: rep)
qed

lemma loop_fail:
  "int i < mr \<Longrightarrow> \<forall>j. i \<le> j \<and> int j < mr \<longrightarrow> attempt j \<noteq> None \<Longrightarrow>
   create_pool_loop attempt mr i le evs =
     (Inl (case attempt (nat mr - 1) of None \<Rightarrow> te | Some e \<Rightarrow> e),
      evs @ concat (replicate (nat mr - 1 - i) [EvCreatePool, EvSleep 1]) @ [EvCreatePool])"
proof (induction "nat mr - 1 - i" arbitrary: i le evs)
  case 0
  then have i: "i = nat mr - 1" by linarith
  from 0 obtain e where e: "attempt i = Some e" by auto
  have stop: "\<not> int (Suc i) < mr" using i 0 by linarith
  show ?case
    using 0(2) e stop i
    by (subst create_pool_loop.simps, subst create_pool_loop.simps) simp
next
  case (Suc n)
  then have lt: "int (Suc i) < mr" by linarith
  from Suc obtain e where e: "attempt i = Some e" by auto
  have n: "n = nat mr - 1 - Suc i" using Suc.hyps by simp
  have step: "create_pool_loop attempt mr (Suc i) (Some e) (evs @ [EvCreatePool, EvSleep 1]) =
     (Inl (case attempt (nat mr - 1) of None \<Rightarrow> te | Some e \<Rightarrow> e),
      (evs @ [EvCreatePool, EvSleep 1])
      @ concat (replicate n [EvCreatePool, EvSleep 1]) @ [EvCreatePool])"
    unfolding n using Suc.prems lt by (intro Suc.hyps(1) n) auto
  have now: "create_pool_loop attempt mr i le evs =
      create_pool_loop attempt mr (Suc i) (Some e) (evs @ [EvCreatePool, EvSleep 1])"
    using lt Suc.prems(1) e by (subst create_pool_loop.simps) simp
  show ?case
    unfolding now step Suc.hyps(2) [symmetric] by simp
qed

text \<open>The loop in closed form: it stops at the first attempt that succeeds, and gives up
  after \<open>mr\<close> failed attempts.\<close>

lemma create_pool_loop_char:
  "create_pool_loop attempt mr 0 None [] =
     (case find (\<lambda>k. attempt k = None) [0..<nat mr] of
        Some k \<Rightarrow> (Inr (), attempts_trace EvCreatePool (Suc k))
      | None \<Rightarrow> (Inl (last_error_of attempt mr), attempts_trace EvCreatePool (nat mr)))"
proof (cases "find (\<lambda>k. attempt k = None) [0..<nat mr]")
  case None
  then have all: "\<forall>j. 0 \<le> j \<and> int j < mr \<longrightarrow> attempt j \<noteq> None"
    by (auto simp: find_None_iff)
  show ?thesis
  proof (cases "0 < mr")
    case True
    then obtain m where m: "nat mr = Suc m" by (cases "nat mr") auto
    show ?thesis
      using loop_fail [OF _ all, of None "[]"] True None m
      by (simp add: attempts_trace_Suc last_error_of_def)
  next
    case False
    then show ?thesis
      using None by (subst create_pool_loop.simps) (simp add: last_error_of_def)
  qed
next
  case (Some k)
  then have k: "attempt k = None" "k < nat mr" "\<forall>j<k. attempt j \<noteq> None"
    by (auto simp: find_Some_iff)
  then show ?thesis
    using loop_success [of attempt k mr 0 None "[]"] Some
    by (simp add: attempts_trace_Suc)
qed

text \<open>
  Claim C9, as stated, fails for \<^verbatim>\<open>get_connection\<close>: with the pool exhausted and a retry
  bound of 3, the \<^verbatim>\<open>PoolError\<close> reaches the caller after a single \<^verbatim>\<open>getconn\<close>, not after
  three attempts with sleeps between them.
\<close>

theorem get_connection_no_retry_counterexample:
  "max_retries db_exhausted = 3
   \<and> fst (get_connection db_exhausted) = Inl (Exc PoolError ''connection pool exhausted'')
   \<and> events (snd (get_connection db_exhausted)) = [EvGetconn]
   \<and> events (snd (get_connection db_exhausted)) \<noteq> attempts_trace EvGetconn 3"
  by (simp add: get_connection_def db_exhausted_def db_one_def numeral_3_eq_3)

text \<open>
  Claim C9, amended. The constructor retries the creation of the pool: with a database URL
  configured it makes attempts, one second apart, until one succeeds, and raises the last
  exception once \<open>max_retries\<close> attempts have failed, so it never makes more than
  \<open>max_retries\<close> attempts. \<^verbatim>\<open>get_connection\<close> does not retry: it calls \<^verbatim>\<open>getconn\<close> once and,
  when the pool is exhausted, raises at once.
\<close>

theorem pool_creation_retried_get_connection_not:
  "(truthy_str (if truthy_str db_url then db_url else env_url) \<longrightarrow>
      neondb_init db_url env_url min_conn max_conn mr attempt s0 =
        (case find (\<lambda>k. attempt k = None) [0..<nat mr] of
           Some k \<Rightarrow>
             (Inr \<lparr>max_retries = mr, maxconn = max_conn, used = 0, store = s0,
                   events = attempts_trace EvCreatePool (Suc k)\<rparr>,
              attempts_trace EvCreatePool (Suc k))
         | None \<Rightarrow> (Inl (last_error_of attempt mr), attempts_trace EvCreatePool (nat mr))))
   \<and> events (snd (get_connection db)) = events db @ [EvGetconn]
   \<and> (maxconn db \<le> used db \<longrightarrow>
        fst (get_connection db) = Inl (Exc PoolError ''connection pool exhausted''))"
  by (simp add: neondb_init_def create_pool_loop_char get_connection_def split: option.splits)

theorem pool_creation_retried_get_connection_not_witness:
  "truthy_str (Some ''postgresql://h/db'')
   \<and> neondb_init (Some ''postgresql://h/db'') None 1 5 3
        (\<lambda>k. if k < 2 then Some (Exc DatabaseError ''timeout'') else None) (0::nat) =
       (Inr \<lparr>max_retries = 3, maxconn = 5, used = 0, store = 0,
             events = [EvCreatePool, EvSleep 1, EvCreatePool, EvSleep 1, EvCreatePool]\<rparr>,
        [EvCreatePool, EvSleep 1, EvCreatePool, EvSleep 1, EvCreatePool])
   \<and> neondb_init (Some ''postgresql://h/db'') None 1 5 3
        (\<lambda>k. Some (Exc DatabaseError ''timeout'')) (0::nat) =
       (Inl (Exc DatabaseError ''timeout''),
        [EvCreatePool, EvSleep 1, EvCreatePool, EvSleep 1, EvCreatePool])
   \<and> maxconn db_exhausted \<le> used db_exhausted
   \<and> fst (get_connection db_exhausted) = Inl (Exc PoolError ''connection pool exhausted'')"
  using pool_creation_retried_get_connection_not
          [of "Some ''postgresql://h/db''" None 1 5 3
              "\<lambda>k. if k < 2 then Some (Exc DatabaseError ''timeout'') else None" "0::nat"
              db_exhausted]
        pool_creation_retried_get_connection_not
          [of "Some ''postgresql://h/db''" None 1 5 3
              "\<lambda>k. Some (Exc DatabaseError ''timeout'')" "0::nat" db_exhausted]
  by (simp add: truthy_str_def db_exhausted_def db_one_def last_error_of_def
        upt_rec numeral_3_eq_3)

subsection \<open>Timestamps\<close>

lemma assign_Some:
  "assign d now r = Some r' \<Longrightarrow>
     row_id r' = row_id r \<and> created_at r' = created_at r \<and> updated_at r' = now"
  by (auto simp: assign_def split: option.splits)

lemma get_account_by_email_Some:
  "get_account_by_email e db = (Some r, db') \<Longrightarrow>
     r \<in> set (tbl (store db)) \<and> email r = e \<and> store db' = store db"
  by (auto simp: get_account_by_email_def execute_query_def get_connection_def
        release_connection_def select_by_email_stmt_def find_Some_iff
        split: if_splits)

lemma add_account_Some:
  "add_account d now srv db = (Some i, db') \<Longrightarrow>
     \<exists>r. tbl (store db') = tbl (store db) @ [r] \<and> row_id r = i \<and> updated_at r = now
          \<and> created_at r = srv"
  by (auto simp: add_account_def insert_returning_def execute_query_def get_connection_def
        release_connection_def insert_stmt_def
        split: if_splits option.splits sum.splits prod.splits)

lemma update_account_True:
  assumes "update_account i d now db = (True, db')"
  shows "(\<exists>r \<in> set (tbl (store db')). row_id r = i)
       \<and> (\<forall>r \<in> set (tbl (store db')). row_id r = i \<longrightarrow> updated_at r = now)
       \<and> map (\<lambda>r. (row_id r, created_at r)) (tbl (store db')) =
           map (\<lambda>r. (row_id r, created_at r)) (tbl (store db))"
proof -
  let ?t = "tbl (store db)"
  let ?t' = "map (\<lambda>r. if row_id r = i then the (assign d now r) else r) ?t"
  from assms have ok: "\<not> list_ex (\<lambda>r. row_id r = i \<and> assign d now r = None) ?t"
    and t': "tbl (store db') = ?t'"
    and hit: "filter (\<lambda>r. row_id r = i) ?t \<noteq> []"
    by (auto simp: update_account_def get_connection_def update_stmt_def Let_def
          split: if_splits sum.splits prod.splits)
  have each: "row_id (the (assign d now r)) = row_id r
      \<and> created_at (the (assign d now r)) = created_at r
      \<and> updated_at (the (assign d now r)) = now"
    if "row_id r = i" "r \<in> set ?t" for r
  proof -
    from ok that obtain r' where "assign d now r = Some r'" by (auto simp: list_ex_iff)
    then show ?thesis using assign_Some by fastforce
  qed
  have ids: "map (\<lambda>r. (row_id r, created_at r)) ?t' = map (\<lambda>r. (row_id r, created_at r)) ?t"
    using each by auto
  from hit obtain r0 where r0: "r0 \<in> set ?t" "row_id r0 = i"
    by (auto simp: filter_empty_conv)
  have ex: "\<exists>r \<in> set ?t'. row_id r = i"
    using r0 each [OF r0(2) r0(1)] by force
  have up: "\<forall>r \<in> set ?t'. row_id r = i \<longrightarrow> updated_at r = now"
    using each by auto
  show ?thesis using ex up ids unfolding t' by blast
qed

text \<open>
  Claim C8. \<^verbatim>\<open>add_account\<close> and \<^verbatim>\<open>update_account\<close> write \<^verbatim>\<open>datetime.now()\<close> into
  \<^verbatim>\<open>updated_at\<close>: the row a successful \<^verbatim>\<open>add_account\<close> appends carries the time \<open>t0\<close> of the
  call (and the server's time as \<^verbatim>\<open>created_at\<close>); after a successful \<^verbatim>\<open>update_account\<close> at
  time \<open>now\<close> the row with that id exists and carries \<open>now\<close>. So when the update is later
  than the creation of the row, the row read back by email has an \<^verbatim>\<open>updated_at\<close> strictly
  greater than its \<^verbatim>\<open>created_at\<close>.
\<close>

theorem updated_at_refreshed:
  "(add_account d0 t0 srv db0 = (Some i, db) \<longrightarrow>
      (\<exists>r. tbl (store db) = tbl (store db0) @ [r] \<and> row_id r = i \<and> updated_at r = t0
            \<and> created_at r = srv))
   \<and> (update_account i d now db = (True, db') \<longrightarrow>
        (\<exists>r \<in> set (tbl (store db')). row_id r = i)
        \<and> (\<forall>r \<in> set (tbl (store db')). row_id r = i \<longrightarrow> updated_at r = now))
   \<and> (update_account i d now db = (True, db')
        \<and> (\<forall>r0 \<in> set (tbl (store db)). row_id r0 = i \<longrightarrow> created_at r0 < now)
        \<and> get_account_by_email e db' = (Some r, db'') \<and> row_id r = i \<longrightarrow>
        updated_at r = now \<and> created_at r < updated_at r)"
proof (intro conjI impI)
  assume "add_account d0 t0 srv db0 = (Some i, db)"
  then show "\<exists>r. tbl (store db) = tbl (store db0) @ [r] \<and> row_id r = i \<and> updated_at r = t0
            \<and> created_at r = srv" by (rule add_account_Some)
next
  assume "update_account i d now db = (True, db')"
  from update_account_True [OF this]
  show "\<exists>r \<in> set (tbl (store db')). row_id r = i"
    and "\<forall>r \<in> set (tbl (store db')). row_id r = i \<longrightarrow> updated_at r = now" by blast+
next
  assume a: "update_account i d now db = (True, db')
        \<and> (\<forall>r0 \<in> set (tbl (store db)). row_id r0 = i \<longrightarrow> created_at r0 < now)
        \<and> get_account_by_email e db' = (Some r, db'') \<and> row_id r = i"
  from a have u: "update_account i d now db = (True, db')" by simp
  note U = update_account_True [OF u]
  from a have r: "r \<in> set (tbl (store db'))" by (auto dest: get_account_by_email_Some)
  from a r U have now: "updated_at r = now" by blast
  have "(row_id r, created_at r) \<in> set (map (\<lambda>r. (row_id r, created_at r)) (tbl (store db')))"
    using r by auto
  then have "(row_id r, created_at r) \<in> set (map (\<lambda>r. (row_id r, created_at r)) (tbl (store db)))"
    using U by simp
  then obtain r0 where "r0 \<in> set (tbl (store db))" "row_id r0 = row_id r"
      "created_at r0 = created_at r" by auto
  then have "created_at r < now" using a by auto
  with now show "updated_at r = now" and "created_at r < updated_at r" by simp_all
qed

text \<open>The scenario of the spec: insert at time 10, update the quota at time 20, read back.\<close>

lemma step_add: "add_account new_a 10 10 db_empty = (Some 1, db_a)"
  by (simp add: add_account_def insert_returning_def execute_query_def get_connection_def
        release_connection_def insert_stmt_def new_a_def no_keys_def db_empty_def db_a_def
        row_a_def values_fit_def fits_def set_col_def)

lemma step_update: "update_account 1 quota_5_of_100 20 db_a = (True, db_u)"
  by (simp add: update_account_def get_connection_def update_stmt_def values_fit_def fits_def
        assign_def set_col_def quota_5_of_100_def no_keys_def db_a_def db_u_def row_u_def
        row_a_def)

lemma step_read: "get_account_by_email ''a@example.com'' db_u = (Some row_u, db_r)"
  by (simp add: get_account_by_email_def execute_query_def get_connection_def
        release_connection_def select_by_email_stmt_def db_u_def db_r_def row_u_def row_a_def)

theorem updated_at_refreshed_witness:
  "add_account new_a 10 10 db_empty = (Some 1, db_a)
   \<and> update_account 1 quota_5_of_100 20 db_a = (True, db_u)
   \<and> get_account_by_email ''a@example.com'' db_u = (Some row_u, db_r)
   \<and> tbl (store db_a) = [row_a] \<and> updated_at row_a = 10
   \<and> quota row_u = Some ''5 / 100''
   \<and> updated_at row_u = 20 \<and> created_at row_u < updated_at row_u"
  using updated_at_refreshed [of new_a 10 10 db_empty 1 db_a quota_5_of_100 20 db_u
          "''a@example.com''" row_u db_r]
        step_add step_update step_read
  by (simp add: db_a_def row_a_def row_u_def)

subsection \<open>Import\<close>















subsection \<open>Export followed by import\<close>

lemma export_two:
  "export_to_csv plain_writerow fs0 ''out.csv'' db_two =
     (True, fs0\<lparr>files := (files fs0)(''out.csv'' \<mapsto> exported_text)\<rparr>,
      db_two\<lparr>events := [EvGetconn, EvPutconn]\<rparr>)"
  by (simp add: export_to_csv_def get_account_list_def execute_query_def get_connection_def
        release_connection_def select_all_stmt_def db_two_def row_a_def row_b_def fs0_def
        account_rows_def opt_row_def truthy_str_def the_str_def plain_writerow_def
        exported_text_def)

lemma read_exported:
  "plain_reader exported_text =
     Inr [[''variable'', ''value''], [''DOMAIN'', ''b.org''],
      [''EMAIL'', ''b@b.org''], [''PASSWORD'', ''q''],
      [''COOKIES_STR'', ''tokB''], [''DOMAIN'', ''example.com''],
      [''EMAIL'', ''a@example.com''], [''PASSWORD'', ''p'']]"
  by (simp add: plain_reader_def exported_text_def py_split_def)

lemma parse_exported:
  "parse_csv [[''variable'', ''value''], [''DOMAIN'', ''b.org''],
      [''EMAIL'', ''b@b.org''], [''PASSWORD'', ''q''],
      [''COOKIES_STR'', ''tokB''], [''DOMAIN'', ''example.com''],
      [''EMAIL'', ''a@example.com''], [''PASSWORD'', ''p'']] =
   [''DOMAIN'' \<mapsto> Some ''example.com'', ''EMAIL'' \<mapsto> Some ''a@example.com'',
    ''PASSWORD'' \<mapsto> Some ''p'', ''COOKIES_STR'' \<mapsto> Some ''tokB'']"
  by (simp add: parse_csv_def dict_reader_def csv_row_def row_get_def fun_eq_iff)

lemma import_exported:
  "import_from_csv plain_reader
       (fs0\<lparr>files := (files fs0)(''out.csv'' \<mapsto> exported_text)\<rparr>) ''out.csv'' 30 30 db_empty =
   (True, db_empty\<lparr>store := \<lparr>tbl =
       [\<lparr>row_id = 1, domain = ''example.com'', email = ''a@example.com'',
      password = ''p'', cookies_str = Some ''tokB'', api_key = Some [],
      moe_mail_url = Some [], quota = Some [], days_remaining = Some [],
      status = Some ''active'', created_at = 30, updated_at = 30\<rparr>], next_id = 2\<rparr>,
      events := [EvGetconn, EvPutconn, EvGetconn, EvPutconn]\<rparr>)"
  by (simp add: import_from_csv_def parse_file_def endswith_def read_exported parse_exported
       fs0_def data_get_def truthy_str_def the_str_def get_account_by_email_def execute_query_def
       get_connection_def release_connection_def select_by_email_stmt_def db_empty_def
       add_account_def insert_returning_def insert_stmt_def account_data_of_def values_fit_def fits_def set_col_def)

text \<open>
  Claim C1 (export followed by import reproduces every populated field of every account)
  fails as soon as two accounts are stored. \<^verbatim>\<open>export_to_csv\<close> writes all accounts into one
  file, repeating the keys, and \<^verbatim>\<open>import_from_csv\<close> reads one dictionary from a file, in
  which a later row overwrites an earlier row with the same key. Exporting the two
  accounts and importing the file into an empty database gives one account: the other
  account is lost, and the account that had no cookie has received the cookie of the
  other one.
\<close>

theorem export_import_merges_accounts:
  "map email (tbl (store db_two)) = [''a@example.com'', ''b@b.org'']
   \<and> cookies_str row_a = None \<and> cookies_str row_b = Some ''tokB''
   \<and> fst (export_to_csv plain_writerow fs0 ''out.csv'' db_two) = True
   \<and> files (fst (snd (export_to_csv plain_writerow fs0 ''out.csv'' db_two))) ''out.csv''
       = Some exported_text
   \<and> fst (import_from_csv plain_reader
            (fst (snd (export_to_csv plain_writerow fs0 ''out.csv'' db_two)))
            ''out.csv'' 30 30 db_empty) = True
   \<and> tbl (store (snd (import_from_csv plain_reader
            (fst (snd (export_to_csv plain_writerow fs0 ''out.csv'' db_two)))
            ''out.csv'' 30 30 db_empty))) =
       [\<lparr>row_id = 1, domain = ''example.com'', email = ''a@example.com'',
         password = ''p'', cookies_str = Some ''tokB'', api_key = Some [],
         moe_mail_url = Some [], quota = Some [], days_remaining = Some [],
         status = Some ''active'', created_at = 30, updated_at = 30\<rparr>]"
  by (simp add: export_two import_exported) (simp add: db_two_def row_a_def row_b_def db_empty_def)

subsection \<open>The user id of a session token\<close>

lemma jwt_all_ValueError:
  "extract_user_id_from_jwt x cookies = Inl e \<Longrightarrow> \<exists>m. e = Exc ValueError m"
  by (auto simp: extract_user_id_from_jwt_def split: sum.splits)

text \<open>
  Claim C4. When the token that \<^verbatim>\<open>extract_token\<close> returns has exactly three segments, the
  middle segment (padded) decodes, and the decoded payload is an object with a truthy
  \<^verbatim>\<open>sub\<close>, then \<^verbatim>\<open>extract_user_id_from_jwt\<close> returns that \<^verbatim>\<open>sub\<close>. When the token has any
  other number of segments (one or two in particular) the call fails with the
  \<^verbatim>\<open>ValueError\<close> for a malformed token, and when the payload has no \<^verbatim>\<open>sub\<close> (or a falsy one)
  with the \<^verbatim>\<open>ValueError\<close> for a missing user id. Every failure of the function is a
  \<^verbatim>\<open>ValueError\<close>.
\<close>

theorem extract_user_id_from_jwt_subject:
  "(extract_token x cookies ''WorkosCursorSessionToken'' = Inr (Some tok)
      \<and> py_split (CHR ''.'') tok = [p0, payload, p2]
      \<and> b64decode x (pad_payload payload) = Inr decoded
      \<and> json_loads x decoded = Inr (JObj kvs)
      \<and> map_of kvs ''sub'' = Some uid \<and> truthy uid
      \<longrightarrow> extract_user_id_from_jwt x cookies = Inr uid)
   \<and> (extract_token x cookies ''WorkosCursorSessionToken'' = Inr (Some tok)
        \<and> length (py_split (CHR ''.'') tok) \<noteq> 3
      \<longrightarrow> extract_user_id_from_jwt x cookies = Inl (Exc ValueError (msg_jwt_fail @ msg_bad_jwt)))
   \<and> (extract_token x cookies ''WorkosCursorSessionToken'' = Inr (Some tok)
        \<and> py_split (CHR ''.'') tok = [p0, payload, p2]
        \<and> b64decode x (pad_payload payload) = Inr decoded
        \<and> json_loads x decoded = Inr (JObj kvs)
        \<and> (map_of kvs ''sub'' = None \<or> map_of kvs ''sub'' = Some uid \<and> \<not> truthy uid)
      \<longrightarrow> extract_user_id_from_jwt x cookies = Inl (Exc ValueError (msg_jwt_fail @ msg_no_sub)))
   \<and> (extract_user_id_from_jwt x cookies = Inl e \<longrightarrow> (\<exists>m. e = Exc ValueError m))"
proof (intro conjI impI)
  assume "extract_token x cookies ''WorkosCursorSessionToken'' = Inr (Some tok)
      \<and> py_split (CHR ''.'') tok = [p0, payload, p2]
      \<and> b64decode x (pad_payload payload) = Inr decoded
      \<and> json_loads x decoded = Inr (JObj kvs)
      \<and> map_of kvs ''sub'' = Some uid \<and> truthy uid"
  then show "extract_user_id_from_jwt x cookies = Inr uid"
    by (simp add: extract_user_id_from_jwt_def jwt_body_def dict_get_def)
next
  assume a: "extract_token x cookies ''WorkosCursorSessionToken'' = Inr (Some tok)
        \<and> length (py_split (CHR ''.'') tok) \<noteq> 3"
  then have "jwt_body x cookies = Inl (Exc ValueError msg_bad_jwt)"
    by (auto simp: jwt_body_def split: list.splits)
  then show "extract_user_id_from_jwt x cookies = Inl (Exc ValueError (msg_jwt_fail @ msg_bad_jwt))"
    by (simp add: extract_user_id_from_jwt_def)
next
  assume "extract_token x cookies ''WorkosCursorSessionToken'' = Inr (Some tok)
        \<and> py_split (CHR ''.'') tok = [p0, payload, p2]
        \<and> b64decode x (pad_payload payload) = Inr decoded
        \<and> json_loads x decoded = Inr (JObj kvs)
        \<and> (map_of kvs ''sub'' = None \<or> map_of kvs ''sub'' = Some uid \<and> \<not> truthy uid)"
  then show "extract_user_id_from_jwt x cookies = Inl (Exc ValueError (msg_jwt_fail @ msg_no_sub))"
    by (auto simp: extract_user_id_from_jwt_def jwt_body_def dict_get_def)
next
  assume "extract_user_id_from_jwt x cookies = Inl e"
  then show "\<exists>m. e = Exc ValueError m" by (rule jwt_all_ValueError)
qed

theorem extract_user_id_from_jwt_subject_witness:
  "extract_token ext_ok cookie_1 ''WorkosCursorSessionToken''
     = Inr (Some ''hdr.eyJzdWIiOiJ1c2VyXzEifQ.sig'')
   \<and> py_split (CHR ''.'') ''hdr.eyJzdWIiOiJ1c2VyXzEifQ.sig''
       = [''hdr'', ''eyJzdWIiOiJ1c2VyXzEifQ'', ''sig'']
   \<and> extract_user_id_from_jwt ext_ok cookie_1 = Inr (JStr ''user_1'')
   \<and> length (py_split (CHR ''.'') ''hdr.eyJleHAiOjF9'') = 2
   \<and> extract_user_id_from_jwt ext_ok ''hdr.eyJleHAiOjF9''
       = Inl (Exc ValueError (msg_jwt_fail @ msg_bad_jwt))
   \<and> length (py_split (CHR ''.'') ''hdr'') = 1
   \<and> extract_user_id_from_jwt ext_ok ''hdr''
       = Inl (Exc ValueError (msg_jwt_fail @ msg_bad_jwt))
   \<and> extract_user_id_from_jwt ext_ok ''hdr.eyJleHAiOjF9.sig''
       = Inl (Exc ValueError (msg_jwt_fail @ msg_no_sub))"
proof -
  have t: "extract_token ext_ok cookie_1 ''WorkosCursorSessionToken''
             = Inr (Some ''hdr.eyJzdWIiOiJ1c2VyXzEifQ.sig'')"
    "extract_token ext_ok ''hdr.eyJleHAiOjF9'' ''WorkosCursorSessionToken''
             = Inr (Some ''hdr.eyJleHAiOjF9'')"
    "extract_token ext_ok ''hdr'' ''WorkosCursorSessionToken'' = Inr (Some ''hdr'')"
    "extract_token ext_ok ''hdr.eyJleHAiOjF9.sig'' ''WorkosCursorSessionToken''
             = Inr (Some ''hdr.eyJleHAiOjF9.sig'')"
    by (simp_all add: ext_ok_def cookie_1_def startswith_def)
  have s: "py_split (CHR ''.'') ''hdr.eyJzdWIiOiJ1c2VyXzEifQ.sig''
             = [''hdr'', ''eyJzdWIiOiJ1c2VyXzEifQ'', ''sig'']"
    "py_split (CHR ''.'') ''hdr.eyJleHAiOjF9'' = [''hdr'', ''eyJleHAiOjF9'']"
    "py_split (CHR ''.'') ''hdr'' = [''hdr'']"
    "py_split (CHR ''.'') ''hdr.eyJleHAiOjF9.sig'' = [''hdr'', ''eyJleHAiOjF9'', ''sig'']"
    by (simp_all add: py_split_def)
  have d: "b64decode ext_ok (pad_payload ''eyJzdWIiOiJ1c2VyXzEifQ'') = Inr sub_text"
    "b64decode ext_ok (pad_payload ''eyJleHAiOjF9'') = Inr exp_text"
    "json_loads ext_ok sub_text = Inr (JObj [(''sub'', JStr ''user_1'')])"
    "json_loads ext_ok exp_text = Inr (JObj [(''exp'', JInt 1)])"
    by (simp_all add: ext_ok_def pad_payload_def numeral_2_eq_2 sub_text_def exp_text_def)
  have ok: "extract_user_id_from_jwt ext_ok cookie_1 = Inr (JStr ''user_1'')"
    using extract_user_id_from_jwt_subject
            [of ext_ok cookie_1 "''hdr.eyJzdWIiOiJ1c2VyXzEifQ.sig''" "''hdr''"
                "''eyJzdWIiOiJ1c2VyXzEifQ''" "''sig''" sub_text "[(''sub'', JStr ''user_1'')]"
                "JStr ''user_1''"]
          t s d by simp
  have two: "extract_user_id_from_jwt ext_ok ''hdr.eyJleHAiOjF9''
       = Inl (Exc ValueError (msg_jwt_fail @ msg_bad_jwt))"
    using extract_user_id_from_jwt_subject [of ext_ok "''hdr.eyJleHAiOjF9''" "''hdr.eyJleHAiOjF9''"]
          t s by simp
  have one: "extract_user_id_from_jwt ext_ok ''hdr''
       = Inl (Exc ValueError (msg_jwt_fail @ msg_bad_jwt))"
    using extract_user_id_from_jwt_subject [of ext_ok "''hdr''" "''hdr''"] t s by simp
  have nosub: "extract_user_id_from_jwt ext_ok ''hdr.eyJleHAiOjF9.sig''
       = Inl (Exc ValueError (msg_jwt_fail @ msg_no_sub))"
    using extract_user_id_from_jwt_subject
            [of ext_ok "''hdr.eyJleHAiOjF9.sig''" "''hdr.eyJleHAiOjF9.sig''" "''hdr''"
                "''eyJleHAiOjF9''" "''sig''" exp_text "[(''exp'', JInt 1)]"]
          t s d by simp
  show ?thesis using t(1) s ok two one nosub by simp
qed

subsection \<open>The fields derived by \<^verbatim>\<open>get_trial_usage\<close>\<close>

lemma length_split_p: "length (split_p p s) = Suc (length (filter p s))"
  by (induction s) (auto split: list.splits)

lemma last_split_p:
  "last (split_p p s) = rev (takeWhile (\<lambda>c. \<not> p c) (rev s))"
proof (induction s)
  case Nil
  then show ?case by simp
next
  case (Cons c cs)
  obtain w ws where sp: "split_p p cs = w # ws"
    using length_split_p [of p cs] by (cases "split_p p cs") auto
  show ?case
  proof (cases "p c")
    case True
    then show ?thesis using Cons sp by (simp add: takeWhile_append)
  next
    case False
    show ?thesis
    proof (cases "\<forall>x \<in> set cs. \<not> p x")
      case True
      then have "filter p cs = []" by (simp add: filter_empty_conv)
      then have ws: "ws = []" using length_split_p [of p cs] sp by simp
      have "takeWhile (\<lambda>c. \<not> p c) (rev cs) = rev cs"
        using True by (simp add: takeWhile_eq_all_conv)
      then have "rev (takeWhile (\<lambda>c. \<not> p c) (rev cs)) = cs" by (metis rev_rev_ident)
      then have "w = cs" using Cons sp ws by simp
      then show ?thesis using False True sp ws by (simp add: takeWhile_append)
    next
      case nall: False
      then have "filter p cs \<noteq> []" by (auto simp: filter_empty_conv)
      then have ws: "ws \<noteq> []" using length_split_p [of p cs] sp by auto
      show ?thesis using False nall sp ws Cons by (auto simp: takeWhile_append)
    qed
  qed
qed

lemma py_str_JStr: "py_str x (JStr s) = s"
  by (simp add: py_str_def)

lemma usage_body_eq:
  assumes me: "http_get x ''https://www.cursor.com/api/auth/me'' cookie = Inr (JObj ui)"
    and st: "http_get x ''https://www.cursor.com/api/auth/stripe'' cookie = Inr (JObj td)"
    and us: "http_get x (''https://www.cursor.com/api/usage?user='' @ py_str x uid) cookie
               = Inr (JObj ud)"
    and em: "map_of ui ''email'' = None \<and> em = unknown \<or> map_of ui ''email'' = Some (JStr em)"
    and g4: "map_of ud ''gpt-4'' = None \<and> g4 = [] \<or> map_of ud ''gpt-4'' = Some (JObj g4)"
  shows "usage_body x cookie uid =
     Inr (if CHR ''@'' \<in> set em then rev (takeWhile (\<lambda>c. c \<noteq> CHR ''@'') (rev em)) else unknown,
          JStr em,
          (case map_of g4 ''maxRequestUsage'' of
             None \<Rightarrow> unknown
           | Some mx \<Rightarrow>
               if truthy mx
               then py_str x (case map_of g4 ''numRequestsTotal'' of
                                None \<Rightarrow> JInt 0 | Some u \<Rightarrow> u) @ '' / '' @ py_str x mx
               else unknown),
          (case map_of td ''daysRemainingOnTrial'' of
             None \<Rightarrow> unknown | Some d \<Rightarrow> py_str x d))"
proof -
  have e: "dict_get (JObj ui) ''email'' (JStr unknown) = Inr (JStr em)"
    using em by (auto simp: dict_get_def)
  have d: "domain_of (JStr em) =
      Inr (if CHR ''@'' \<in> set em then rev (takeWhile (\<lambda>c. c \<noteq> CHR ''@'') (rev em)) else unknown)"
    by (simp add: domain_of_def py_split_def last_split_p)
  have g: "dict_get (JObj ud) ''gpt-4'' (JObj []) = Inr (JObj g4)"
    using g4 by (auto simp: dict_get_def)
  show ?thesis
    by (simp only: usage_body_def make_request_def me st us e d g sum.case)
       (simp add: dict_get_def py_str_JStr split: option.splits)
qed

lemma str_int_examples:
  "str_int 0 = ''0''" "str_int 5 = ''5''" "str_int 14 = ''14''" "str_int 150 = ''150''"
  by code_simp+

lemma jwt_cookie_1: "extract_user_id_from_jwt ext_ok cookie_1 = Inr (JStr ''user_1'')"
  by (simp add: extract_user_id_from_jwt_def jwt_body_def ext_ok_def cookie_1_def startswith_def
        py_split_def pad_payload_def dict_get_def sub_text_def exp_text_def numeral_2_eq_2)

lemma jwt_cookie_1_no_used: "extract_user_id_from_jwt ext_no_used cookie_1 = Inr (JStr ''user_1'')"
  by (simp add: extract_user_id_from_jwt_def jwt_body_def ext_ok_def ext_no_used_def cookie_1_def
        startswith_def py_split_def pad_payload_def dict_get_def sub_text_def exp_text_def numeral_2_eq_2)

text \<open>
  Claim C7, as stated, fails in its last part: a missing \<^verbatim>\<open>numRequestsTotal\<close> is replaced
  by 0, not by the sentinel. With a usage answer that has \<^verbatim>\<open>maxRequestUsage\<close> only, the
  quota is \<^verbatim>\<open>0 / 150\<close>.
\<close>

theorem missing_used_count_counterexample:
  "http_get ext_no_used ''https://www.cursor.com/api/usage?user=user_1'' cookie_1 =
     Inr (JObj [(''gpt-4'', JObj [(''maxRequestUsage'', JInt 150)])])
   \<and> get_trial_usage ext_no_used cookie_1 =
       Inr (''example.com'', JStr ''a@example.com'', ''0 / 150'', ''14'')
   \<and> ''0 / 150'' \<noteq> unknown"
proof -
  have c: "cookie_1 \<noteq> []" "startswith cookie_1 ''WorkosCursorSessionToken=''"
    by (simp_all add: cookie_1_def startswith_def)
  have g: "http_get ext_no_used url ck =
     (if url = ''https://www.cursor.com/api/usage?user=user_1''
      then Inr (JObj [(''gpt-4'', JObj [(''maxRequestUsage'', JInt 150)])])
      else if url = ''https://www.cursor.com/api/auth/me''
      then Inr (JObj [(''email'', JStr ''a@example.com'')])
      else if url = ''https://www.cursor.com/api/auth/stripe''
      then Inr (JObj [(''daysRemainingOnTrial'', JInt 14)])
      else Inl (Exc RequestException ''404 Client Error''))" for url ck
    by (simp add: ext_no_used_def ext_ok_def)
  have u: "usage_body ext_no_used cookie_1 (JStr ''user_1'') =
       Inr (''example.com'', JStr ''a@example.com'', ''0 / 150'', ''14'')"
    by (simp add: usage_body_def make_request_def g py_str_def dict_get_def
        domain_of_def py_split_def str_int_examples)
  show ?thesis
    by (simp add: get_trial_usage_def jwt_cookie_1_no_used c u g) (simp add: unknown_def)
qed

text \<open>
  Claim C7, amended. When the three answers are objects, the email is a string or missing
  and \<^verbatim>\<open>gpt-4\<close> is an object or missing, \<^verbatim>\<open>get_trial_usage\<close> succeeds with: the domain, which
  is the part of the email after its last \<^verbatim>\<open>@\<close> (the sentinel when the email has none);
  the email (the sentinel when missing); the quota \<^verbatim>\<open><used> / <max>\<close> when the max-usage
  field is truthy and the sentinel otherwise, where a missing used count is 0; and the
  string form of the trial-days field (the sentinel when missing).
\<close>

theorem usage_fields:
  "cookie_str \<noteq> [] \<and> extract_user_id_from_jwt x cookie_str = Inr uid
   \<and> cookie = (if startswith cookie_str ''WorkosCursorSessionToken='' then cookie_str
                else ''WorkosCursorSessionToken='' @ cookie_str)
   \<and> http_get x ''https://www.cursor.com/api/auth/me'' cookie = Inr (JObj ui)
   \<and> http_get x ''https://www.cursor.com/api/auth/stripe'' cookie = Inr (JObj td)
   \<and> http_get x (''https://www.cursor.com/api/usage?user='' @ py_str x uid) cookie
        = Inr (JObj ud)
   \<and> (map_of ui ''email'' = None \<and> em = unknown \<or> map_of ui ''email'' = Some (JStr em))
   \<and> (map_of ud ''gpt-4'' = None \<and> g4 = [] \<or> map_of ud ''gpt-4'' = Some (JObj g4))
   \<longrightarrow> get_trial_usage x cookie_str =
     Inr (if CHR ''@'' \<in> set em then rev (takeWhile (\<lambda>c. c \<noteq> CHR ''@'') (rev em)) else unknown,
          JStr em,
          (case map_of g4 ''maxRequestUsage'' of
             None \<Rightarrow> unknown
           | Some mx \<Rightarrow>
               if truthy mx
               then py_str x (case map_of g4 ''numRequestsTotal'' of
                                None \<Rightarrow> JInt 0 | Some u \<Rightarrow> u) @ '' / '' @ py_str x mx
               else unknown),
          (case map_of td ''daysRemainingOnTrial'' of
             None \<Rightarrow> unknown | Some d \<Rightarrow> py_str x d))"
proof
  assume a: "cookie_str \<noteq> [] \<and> extract_user_id_from_jwt x cookie_str = Inr uid
   \<and> cookie = (if startswith cookie_str ''WorkosCursorSessionToken='' then cookie_str
                else ''WorkosCursorSessionToken='' @ cookie_str)
   \<and> http_get x ''https://www.cursor.com/api/auth/me'' cookie = Inr (JObj ui)
   \<and> http_get x ''https://www.cursor.com/api/auth/stripe'' cookie = Inr (JObj td)
   \<and> http_get x (''https://www.cursor.com/api/usage?user='' @ py_str x uid) cookie
        = Inr (JObj ud)
   \<and> (map_of ui ''email'' = None \<and> em = unknown \<or> map_of ui ''email'' = Some (JStr em))
   \<and> (map_of ud ''gpt-4'' = None \<and> g4 = [] \<or> map_of ud ''gpt-4'' = Some (JObj g4))"
  then have ub: "usage_body x cookie uid =
     Inr (if CHR ''@'' \<in> set em then rev (takeWhile (\<lambda>c. c \<noteq> CHR ''@'') (rev em)) else unknown,
          JStr em,
          (case map_of g4 ''maxRequestUsage'' of
             None \<Rightarrow> unknown
           | Some mx \<Rightarrow>
               if truthy mx
               then py_str x (case map_of g4 ''numRequestsTotal'' of
                                None \<Rightarrow> JInt 0 | Some u \<Rightarrow> u) @ '' / '' @ py_str x mx
               else unknown),
          (case map_of td ''daysRemainingOnTrial'' of
             None \<Rightarrow> unknown | Some d \<Rightarrow> py_str x d))"
  proof -
    from a have me: "http_get x ''https://www.cursor.com/api/auth/me'' cookie = Inr (JObj ui)"
      by blast
    from a have st: "http_get x ''https://www.cursor.com/api/auth/stripe'' cookie = Inr (JObj td)"
      by blast
    from a have us: "http_get x (''https://www.cursor.com/api/usage?user='' @ py_str x uid) cookie
        = Inr (JObj ud)" by blast
    from a have em: "map_of ui ''email'' = None \<and> em = unknown
        \<or> map_of ui ''email'' = Some (JStr em)" by blast
    from a have g4: "map_of ud ''gpt-4'' = None \<and> g4 = []
        \<or> map_of ud ''gpt-4'' = Some (JObj g4)" by blast
    show ?thesis by (rule usage_body_eq [OF me st us em g4])
  qed
  from a have c: "cookie = (if startswith cookie_str ''WorkosCursorSessionToken='' then cookie_str
                else ''WorkosCursorSessionToken='' @ cookie_str)" by blast
  from a have ne: "cookie_str \<noteq> []"
    and uid: "extract_user_id_from_jwt x cookie_str = Inr uid" by blast+
  have "get_trial_usage x cookie_str =
      (case usage_body x cookie uid of
         Inl e \<Rightarrow> Inl (Exc ValueError (msg_handle_jwt @ msg_info_fail @ str_exc e))
       | Inr r \<Rightarrow> Inr r)"
    unfolding c get_trial_usage_def by (simp only: ne uid if_False sum.case)
  then show "get_trial_usage x cookie_str =
     Inr (if CHR ''@'' \<in> set em then rev (takeWhile (\<lambda>c. c \<noteq> CHR ''@'') (rev em)) else unknown,
          JStr em,
          (case map_of g4 ''maxRequestUsage'' of
             None \<Rightarrow> unknown
           | Some mx \<Rightarrow>
               if truthy mx
               then py_str x (case map_of g4 ''numRequestsTotal'' of
                                None \<Rightarrow> JInt 0 | Some u \<Rightarrow> u) @ '' / '' @ py_str x mx
               else unknown),
          (case map_of td ''daysRemainingOnTrial'' of
             None \<Rightarrow> unknown | Some d \<Rightarrow> py_str x d))"
    by (simp only: ub sum.case)
qed

theorem usage_fields_witness:
  "cookie_1 \<noteq> [] \<and> extract_user_id_from_jwt ext_ok cookie_1 = Inr (JStr ''user_1'')
   \<and> get_trial_usage ext_ok cookie_1 =
       Inr (''example.com'', JStr ''a@example.com'', ''5 / 150'', ''14'')"
proof -
  have c: "cookie_1 \<noteq> []" "startswith cookie_1 ''WorkosCursorSessionToken=''"
    by (simp_all add: cookie_1_def startswith_def)
  have g: "http_get ext_ok ''https://www.cursor.com/api/auth/me'' cookie_1 =
             Inr (JObj [(''email'', JStr ''a@example.com'')])"
    "http_get ext_ok ''https://www.cursor.com/api/auth/stripe'' cookie_1 =
             Inr (JObj [(''daysRemainingOnTrial'', JInt 14)])"
    "http_get ext_ok (''https://www.cursor.com/api/usage?user='' @ py_str ext_ok (JStr ''user_1''))
        cookie_1 =
       Inr (JObj [(''gpt-4'', JObj [(''numRequestsTotal'', JInt 5),
                                    (''maxRequestUsage'', JInt 150)])])"
    by (simp_all add: ext_ok_def py_str_def)
  have p: "py_str ext_ok (JInt 5) = ''5''" "py_str ext_ok (JInt 150) = ''150''"
    "py_str ext_ok (JInt 14) = ''14''"
    by (simp_all add: py_str_def str_int_examples)
  from usage_fields [of cookie_1 ext_ok "JStr ''user_1''" cookie_1
          "[(''email'', JStr ''a@example.com'')]" "[(''daysRemainingOnTrial'', JInt 14)]"
          "[(''gpt-4'', JObj [(''numRequestsTotal'', JInt 5), (''maxRequestUsage'', JInt 150)])]"
          "''a@example.com''"
          "[(''numRequestsTotal'', JInt 5), (''maxRequestUsage'', JInt 150)]"]
       c g jwt_cookie_1
  have "get_trial_usage ext_ok cookie_1 =
       Inr (''example.com'', JStr ''a@example.com'', ''5 / 150'', ''14'')"
    by (simp add: p)
  with c jwt_cookie_1 show ?thesis by simp
qed

subsection \<open>The batch refresh\<close>























subsection \<open>The manual backup\<close>

lemma backup_never_reports_success:
  "\<exists>m. fst (backup_account env_email timestamp f db) = ShowError t_backup_fail m"
  by (auto simp: backup_account_def split: option.splits prod.splits)

lemma backup_adds_no_record:
  "store (snd (snd (backup_account env_email timestamp f db))) = store db"
  by (auto simp: backup_account_def get_account_by_email_def execute_query_def
        get_connection_def release_connection_def select_by_email_stmt_def
        split: option.splits prod.splits)

lemma backup_other_files_kept:
  "p \<noteq> backup_path timestamp \<Longrightarrow>
   files (fst (snd (backup_account env_email timestamp f db))) p = files f p"
  by (auto simp: backup_account_def split: option.splits prod.splits)

lemma backup_missing_account_keeps_files:
  "fst (get_account_by_email (the_str env_email) db) = None \<Longrightarrow>
   fst (snd (backup_account env_email timestamp f db)) = f"
  by (auto simp: backup_account_def split: option.splits prod.splits)

lemma backup_unwritable_keeps_files:
  "\<not> writable f (backup_path timestamp) \<Longrightarrow>
   fst (snd (backup_account env_email timestamp f db)) = f"
  by (auto simp: backup_account_def split: option.splits prod.splits)

text \<open>
  Claim C2 (a manual backup of a stored account writes the file, appends a backup record
  and reports success) fails for every stored account, because the method that is to
  append the record does not exist. For the stored account of the scenario the file is
  written, then the \<^verbatim>\<open>AttributeError\<close> is shown as a failed backup, and the database is
  as before. When a backup file of the same second exists, this failed operation has
  replaced it. (The two failures the claim names, a missing account and a path that cannot
  be written, leave every file as it was: the lemmas above.)
\<close>

theorem backup_account_reports_failure:
  "fst (get_account_by_email ''a@example.com'' db_a) = Some row_a
   \<and> fst (backup_account (Some ''a@example.com'') ''20250101_000000'' fs0 db_a) =
       ShowError t_backup_fail
         ([CHR 0x27] @ ''NeonDB'' @ [CHR 0x27] @ '' object has no attribute ''
          @ [CHR 0x27] @ ''backup_account'' @ [CHR 0x27])
   \<and> files (fst (snd (backup_account (Some ''a@example.com'') ''20250101_000000'' fs0 db_a)))
         ''env_backups/cursor_account_20250101_000000.csv'' =
       Some (''variable,value'' @ [CHR 0x0A] @ ''DOMAIN,example.com'' @ [CHR 0x0A]
             @ ''EMAIL,a@example.com'' @ [CHR 0x0A] @ ''PASSWORD,p'' @ [CHR 0x0A])
   \<and> store (snd (snd (backup_account (Some ''a@example.com'') ''20250101_000000'' fs0 db_a)))
       = store db_a
   \<and> files (fst (snd (backup_account (Some ''a@example.com'') ''20250101_000000'' fs_old
                         db_a)))
         ''env_backups/cursor_account_20250101_000000.csv'' \<noteq>
       files fs_old ''env_backups/cursor_account_20250101_000000.csv''"
  by (simp add: backup_account_def truthy_str_def the_str_def get_account_by_email_def
        execute_query_def get_connection_def release_connection_def select_by_email_stmt_def
        db_a_def row_a_def fs0_def fs_old_def backup_path_def backup_text_def backup_line_def
        no_attribute_def)

end
